theory Spec2Isabelle
  imports Main
begin

section \<open>The event log\<close>

text \<open>
  The notebook \<^verbatim>\<open>DE 4.4 - Pipeline Event Logs.py\<close> reads the event log of a pipeline into the
  view \<^verbatim>\<open>event_log_raw\<close> and runs SQL queries over it. A row of the view has the columns the
  queries use: \<^verbatim>\<open>event_type\<close>, \<^verbatim>\<open>timestamp\<close>, \<^verbatim>\<open>origin.update_id\<close> and the JSON text
  \<^verbatim>\<open>details\<close>. SQL \<^verbatim>\<open>NULL\<close> is \<open>None\<close>.

  The queries reach into \<^verbatim>\<open>details\<close> with three expressions of Spark's JSON library; a row
  carries what each of them yields on its \<^verbatim>\<open>details\<close>:
  \<^item> \<^verbatim>\<open>details:flow_definition.output_dataset\<close>, a string or \<^verbatim>\<open>NULL\<close>;
  \<^item> \<^verbatim>\<open>details:flow_definition.input_datasets\<close>, the JSON text of the array, or \<^verbatim>\<open>NULL\<close>;
  \<^item> \<^verbatim>\<open>from_json(details:flow_progress:data_quality:expectations, "array<struct<...>>")\<close>,
    an array of structs, or \<^verbatim>\<open>NULL\<close> when the path is missing or the text does not parse.

  The columns \<^verbatim>\<open>event_type\<close> and \<^verbatim>\<open>timestamp\<close> are taken as never \<^verbatim>\<open>NULL\<close>, and a timestamp
  as the integer the engine stores for it. Every field of an expectation struct can be
  \<^verbatim>\<open>NULL\<close>; a \<^verbatim>\<open>NULL\<close> element of the array reads as a struct of \<^verbatim>\<open>NULL\<close>s, which is all the
  metrics query can see of it.
\<close>

record expectation =
  name :: "string option"
  dataset :: "string option"
  passed_records :: "int option"
  failed_records :: "int option"

record origin =
  update_id :: "string option"

record details =
  flow_definition_output_dataset :: "string option"
  flow_definition_input_datasets :: "string option"
  flow_progress_expectations :: "expectation list option"

record event =
  event_type :: string
  timestamp :: int
  origin :: origin
  details :: details

section \<open>Library functions of the SQL dialect\<close>

text \<open>
  \<^verbatim>\<open>regexp_extract_all(s, "(\")([^\"]+)(\")", 2)\<close>: all matches of the pattern, found from
  left to right without overlap, each giving its group 2. A match starts at a double quote
  that is followed by at least one character other than a double quote and, after the longest
  run of such characters, by a closing double quote; the search goes on after the closing
  quote. Where no match starts at a position, the search moves one character on.
\<close>

function regexp_extract_all :: "string \<Rightarrow> string list" where
  "regexp_extract_all [] = []"
| "regexp_extract_all (c # cs) =
     (if c = CHR 0x22 then
        (let body = takeWhile (\<lambda>x. x \<noteq> CHR 0x22) cs;
             rest = dropWhile (\<lambda>x. x \<noteq> CHR 0x22) cs
         in if body \<noteq> [] \<and> rest \<noteq> [] then body # regexp_extract_all (tl rest)
            else regexp_extract_all cs)
      else regexp_extract_all cs)"
  by pat_completeness auto
termination
proof (relation "measure length")
  fix c :: char and cs body rest :: string
  assume "rest = dropWhile (\<lambda>x. x \<noteq> CHR 0x22) cs"
  then have "length (tl rest) \<le> length cs"
    using length_dropWhile_le [of "\<lambda>x. x \<noteq> CHR 0x22" cs] by simp
  then show "(tl rest, c # cs) \<in> measure length" by simp
qed simp_all

text \<open>\<^verbatim>\<open>explode\<close> gives one row per element of an array, and no row for \<^verbatim>\<open>NULL\<close>.\<close>

definition explode :: "'a list option \<Rightarrow> 'a list" where
  "explode arr = (case arr of None \<Rightarrow> [] | Some xs \<Rightarrow> xs)"

text \<open>
  \<^verbatim>\<open>COLLECT_SET\<close> gathers the values of a group without duplicates, in no promised order;
  the model keeps one occurrence of each in list order.
\<close>

definition collect_set :: "'a list \<Rightarrow> 'a list" where
  "collect_set xs = remdups xs"

text \<open>\<^verbatim>\<open>SUM\<close> skips \<^verbatim>\<open>NULL\<close>s and is \<^verbatim>\<open>NULL\<close> over no value at all.\<close>

definition sql_sum :: "int option list \<Rightarrow> int option" where
  "sql_sum vs = (case List.map_filter id vs of [] \<Rightarrow> None | n # ns \<Rightarrow> Some (sum_list (n # ns)))"

section \<open>Lineage\<close>

record lineage_row =
  output_dataset :: "string option"
  input_depth :: nat
  input_dataset :: string

text \<open>The common table expressions of the lineage query, in the order the notebook writes them.\<close>

definition l1_raw :: "event list \<Rightarrow> string \<Rightarrow> (string option \<times> string option) list" where
  "l1_raw event_log_raw uid =
     map (\<lambda>e. (flow_definition_output_dataset (details e),
                flow_definition_input_datasets (details e)))
       (filter (\<lambda>e. event_type e = ''flow_definition'' \<and> update_id (origin e) = Some uid)
          event_log_raw)"

definition l1_arr :: "event list \<Rightarrow> string \<Rightarrow> (string option \<times> string list option) list" where
  "l1_arr event_log_raw uid =
     map (\<lambda>(out, ins). (out, map_option regexp_extract_all ins)) (l1_raw event_log_raw uid)"

definition l1 :: "event list \<Rightarrow> string \<Rightarrow> lineage_row list" where
  "l1 event_log_raw uid =
     concat (map (\<lambda>(out, arr).
                map (\<lambda>x. \<lparr>output_dataset = out, input_depth = 1, input_dataset = x\<rparr>)
                  (explode arr))
       (l1_arr event_log_raw uid))"

text \<open>
  \<^verbatim>\<open>FROM prev LEFT JOIN l1 AS nxt ON prev.input_dataset = nxt.output_dataset\<close>: every row of
  the left side with each row of \<open>l1\<close> that matches it, or once with \<^verbatim>\<open>NULL\<close>s where none
  does. A \<^verbatim>\<open>NULL\<close> output dataset matches nothing.
\<close>

definition left_join :: "lineage_row list \<Rightarrow> lineage_row list \<Rightarrow> (lineage_row \<times> lineage_row option) list" where
  "left_join prev nxt =
     concat (map (\<lambda>p.
        (case filter (\<lambda>n. output_dataset n = Some (input_dataset p)) nxt of
           [] \<Rightarrow> [(p, None)]
         | m # ms \<Rightarrow> map (\<lambda>n. (p, Some n)) (m # ms)))
       prev)"

text \<open>
  The body that \<open>l2\<close> and \<open>l3\<close> share: the left join, \<^verbatim>\<open>WHERE nxt.input_dataset IS NOT NULL\<close>
  (the rows that found a match), and the three selected columns.
\<close>

definition join_level :: "nat \<Rightarrow> lineage_row list \<Rightarrow> lineage_row list \<Rightarrow> lineage_row list" where
  "join_level depth prev nxt =
     concat (map (\<lambda>(p, m).
        (case m of
           None \<Rightarrow> []
         | Some n \<Rightarrow> [\<lparr>output_dataset = output_dataset p, input_depth = depth,
                      input_dataset = input_dataset n\<rparr>]))
       (left_join prev nxt))"

definition l2 :: "event list \<Rightarrow> string \<Rightarrow> lineage_row list" where
  "l2 event_log_raw uid = join_level 2 (l1 event_log_raw uid) (l1 event_log_raw uid)"

definition l3 :: "event list \<Rightarrow> string \<Rightarrow> lineage_row list" where
  "l3 event_log_raw uid = join_level 3 (l2 event_log_raw uid) (l1 event_log_raw uid)"

text \<open>
  The final \<^verbatim>\<open>SELECT\<close>: the three levels under \<^verbatim>\<open>UNION ALL\<close>, pivoted on \<^verbatim>\<open>input_depth\<close>. The
  pivot groups by the remaining column \<^verbatim>\<open>output_dataset\<close> and gives every group the columns
  \<open>L1\<close>, \<open>L2\<close>, \<open>L3\<close>, each the \<^verbatim>\<open>COLLECT_SET\<close> of the group's input datasets at that depth.
\<close>

record pivot_row =
  pivot_output_dataset :: "string option"
  L1 :: "string list"
  L2 :: "string list"
  L3 :: "string list"

definition union_all :: "event list \<Rightarrow> string \<Rightarrow> lineage_row list" where
  "union_all event_log_raw uid = l1 event_log_raw uid @ l2 event_log_raw uid @ l3 event_log_raw uid"

definition pivot_cell :: "lineage_row list \<Rightarrow> string option \<Rightarrow> nat \<Rightarrow> string list" where
  "pivot_cell rows out depth =
     collect_set (map input_dataset
       (filter (\<lambda>r. output_dataset r = out \<and> input_depth r = depth) rows))"

definition pivot :: "lineage_row list \<Rightarrow> pivot_row list" where
  "pivot rows =
     map (\<lambda>out. \<lparr>pivot_output_dataset = out, L1 = pivot_cell rows out 1,
                 L2 = pivot_cell rows out 2, L3 = pivot_cell rows out 3\<rparr>)
       (remdups (map output_dataset rows))"

definition lineage :: "event list \<Rightarrow> string \<Rightarrow> pivot_row list" where
  "lineage event_log_raw uid = pivot (union_all event_log_raw uid)"

text \<open>
  The notebook writes the chain of levels out to depth 3. \<open>lN\<close> is the level that the same
  pattern gives at any depth: \<open>l1\<close> at depth 1, and at each later depth the body of \<open>l2\<close> and
  \<open>l3\<close> over the level before. At depths 2 and 3 it is \<open>l2\<close> and \<open>l3\<close> themselves.
\<close>

fun lN :: "event list \<Rightarrow> string \<Rightarrow> nat \<Rightarrow> lineage_row list" where
  "lN event_log_raw uid 0 = []"
| "lN event_log_raw uid (Suc 0) = l1 event_log_raw uid"
| "lN event_log_raw uid (Suc (Suc k)) =
     join_level (Suc (Suc k)) (lN event_log_raw uid (Suc k)) (l1 event_log_raw uid)"

subsection \<open>What the lineage query is to compute\<close>

text \<open>
  The direct inputs of a dataset are the names in the \<^verbatim>\<open>input_datasets\<close> of the
  \<^verbatim>\<open>flow_definition\<close> records of the update whose \<^verbatim>\<open>output_dataset\<close> it is: the edges
  \<open>x \<rightarrow> out\<close>. The ancestors at depth 1 are the direct inputs; at depth \<open>k + 1\<close> they are the
  direct inputs of the ancestors at depth \<open>k\<close>, whether or not they were seen before.
\<close>

definition direct_inputs :: "event list \<Rightarrow> string \<Rightarrow> string option \<Rightarrow> string set" where
  "direct_inputs event_log_raw uid out =
     (\<Union>e \<in> set (filter (\<lambda>e. event_type e = ''flow_definition'' \<and> update_id (origin e) = Some uid
                            \<and> flow_definition_output_dataset (details e) = out) event_log_raw).
        set (explode (map_option regexp_extract_all (flow_definition_input_datasets (details e)))))"

fun ancestors_at :: "event list \<Rightarrow> string \<Rightarrow> string option \<Rightarrow> nat \<Rightarrow> string set" where
  "ancestors_at event_log_raw uid out 0 = {}"
| "ancestors_at event_log_raw uid out (Suc 0) = direct_inputs event_log_raw uid out"
| "ancestors_at event_log_raw uid out (Suc (Suc k)) =
     (\<Union>y \<in> ancestors_at event_log_raw uid out (Suc k). direct_inputs event_log_raw uid (Some y))"

text \<open>The input datasets that a list of level rows holds for one output dataset.\<close>

definition inputs_of :: "lineage_row list \<Rightarrow> string option \<Rightarrow> string list" where
  "inputs_of rows out = map input_dataset (filter (\<lambda>r. output_dataset r = out) rows)"

section \<open>Latest update\<close>

text \<open>
  \<^verbatim>\<open>spark.sql("SELECT origin.update_id FROM event_log_raw WHERE event_type = 'create_update'
  ORDER BY timestamp DESC LIMIT 1").first().update_id\<close>. \<^verbatim>\<open>first()\<close> is \<^verbatim>\<open>None\<close> on an empty
  result, and reading \<^verbatim>\<open>.update_id\<close> of \<^verbatim>\<open>None\<close> raises \<^verbatim>\<open>AttributeError\<close>. Among rows of
  equal timestamp the engine promises no order; the model keeps the order of the log.

  \<open>NotFoundError\<close> is the error the specification names for a log without a \<^verbatim>\<open>create_update\<close>
  record. No statement of the notebook raises it; it is among the errors so that the error
  the code does raise can be told from it.
\<close>

datatype error = AttributeError | IllegalArgumentException | NotFoundError

definition first :: "'a list \<Rightarrow> 'a option" where
  "first rows = (case rows of [] \<Rightarrow> None | r # _ \<Rightarrow> Some r)"

definition latest_update_id :: "event list \<Rightarrow> error + string option" where
  "latest_update_id event_log_raw =
     (case first (take 1 (sort_key (\<lambda>e. - timestamp e)
                    (filter (\<lambda>e. event_type e = ''create_update'') event_log_raw))) of
        None \<Rightarrow> Inl AttributeError
      | Some row \<Rightarrow> Inr (update_id (origin row)))"

section \<open>Data quality metrics\<close>

record metrics_row =
  metrics_dataset :: "string option"
  metrics_expectation :: "string option"
  passing_records :: "int option"
  failing_records :: "int option"

text \<open>
  The inner \<^verbatim>\<open>SELECT\<close>: one row per element of the parsed expectations array of each
  \<^verbatim>\<open>flow_progress\<close> record of the update.
\<close>

definition row_expectations :: "event list \<Rightarrow> string \<Rightarrow> expectation list" where
  "row_expectations event_log_raw uid =
     concat (map (\<lambda>e. explode (flow_progress_expectations (details e)))
       (filter (\<lambda>e. event_type e = ''flow_progress'' \<and> update_id (origin e) = Some uid)
          event_log_raw))"

text \<open>
  The outer \<^verbatim>\<open>SELECT\<close>: \<^verbatim>\<open>GROUP BY row_expectations.dataset, row_expectations.name\<close> with the
  two sums. The counts are 32-bit and the sums 64-bit in the engine; the model has them unbounded.
\<close>

definition data_quality_metrics :: "event list \<Rightarrow> string \<Rightarrow> metrics_row list" where
  "data_quality_metrics event_log_raw uid =
     (let rows = row_expectations event_log_raw uid
      in map (\<lambda>(d, n).
            \<lparr>metrics_dataset = d, metrics_expectation = n,
             passing_records =
               sql_sum (map passed_records (filter (\<lambda>r. dataset r = d \<and> name r = n) rows)),
             failing_records =
               sql_sum (map failed_records (filter (\<lambda>r. dataset r = d \<and> name r = n) rows))\<rparr>)
           (remdups (map (\<lambda>r. (dataset r, name r)) rows)))"

section \<open>The cells and the session configuration\<close>

text \<open>
  The cell that finds the latest update pushes it into the Spark configuration under
  \<^verbatim>\<open>latest_update.id\<close>, and the SQL cells read it back through the reference
  \<^verbatim>\<open>${latest_update.id}\<close> in their text. Of the configuration this one entry is what the
  notebook writes and reads: it is the state the cells share, \<open>None\<close> where it is not set. The
  configuration refuses a \<^verbatim>\<open>None\<close> value.
\<close>

type_synonym conf = "string option"

definition cell_latest_update_id :: "event list \<Rightarrow> conf \<Rightarrow> error + conf" where
  "cell_latest_update_id event_log_raw conf =
     (case latest_update_id event_log_raw of
        Inl err \<Rightarrow> Inl err
      | Inr None \<Rightarrow> Inl IllegalArgumentException
      | Inr (Some latest) \<Rightarrow> Inr (Some latest))"

text \<open>
  The text the engine puts in the place of the reference: the entry, and nothing at all
  where the entry is not set.
\<close>

definition substituted :: "conf \<Rightarrow> string" where
  "substituted conf = (case conf of None \<Rightarrow> [] | Some v \<Rightarrow> v)"

text \<open>
  The SQL cells write the reference between single quotes,
  \<^verbatim>\<open>origin.update_id = '${latest_update.id}'\<close>, and the text is pasted there as it is. Where it
  is made of letters, digits, hyphens and underscores only, as the identifier of an update
  is, what stands between the quotes is a string literal of that very value, and the cell
  runs its query for it; so it does for the empty text. Other characters can change the
  statement itself: a single quote ends the literal early, and what follows is read as SQL
  or does not parse and raises \<^verbatim>\<open>ParseException\<close>; a backslash escapes the character after it;
  a dollar sign can start a reference that is substituted again. What a cell does for a text
  with any other character is not followed here, and \<open>Not_followed\<close> stands for it.
\<close>

definition plain_text :: "string \<Rightarrow> bool" where
  "plain_text v \<longleftrightarrow>
     set v \<subseteq> set ''abcdefghijklmnopqrstuvwxyzABCDEFGHIJKLMNOPQRSTUVWXYZ0123456789-_''"

datatype 'a sql_cell = Rows 'a | Not_followed

definition cell_lineage :: "event list \<Rightarrow> conf \<Rightarrow> (pivot_row list \<times> conf) sql_cell" where
  "cell_lineage event_log_raw conf =
     (if plain_text (substituted conf)
      then Rows (lineage event_log_raw (substituted conf), conf)
      else Not_followed)"

definition cell_data_quality_metrics :: "event list \<Rightarrow> conf \<Rightarrow> (metrics_row list \<times> conf) sql_cell" where
  "cell_data_quality_metrics event_log_raw conf =
     (if plain_text (substituted conf)
      then Rows (data_quality_metrics event_log_raw (substituted conf), conf)
      else Not_followed)"

section \<open>Example logs\<close>

text \<open>
  A \<^verbatim>\<open>flow_definition\<close> record of an update, with its output dataset and the JSON text of its
  input datasets.
\<close>

definition flow_definition_event :: "string \<Rightarrow> string \<Rightarrow> string \<Rightarrow> event" where
  "flow_definition_event uid out ins =
     \<lparr>event_type = ''flow_definition'', timestamp = 0, origin = \<lparr>update_id = Some uid\<rparr>,
      details = \<lparr>flow_definition_output_dataset = Some out,
                 flow_definition_input_datasets = Some ins,
                 flow_progress_expectations = None\<rparr>\<rparr>"

definition diamond_log :: "event list" where
  \<open>diamond_log =
     [flow_definition_event ''u1'' ''B'' ''["A"]'',
      flow_definition_event ''u1'' ''C'' ''["A"]'',
      flow_definition_event ''u1'' ''D'' ''["B","C"]'']\<close>

definition shortcut_log :: "event list" where
  \<open>shortcut_log =
     [flow_definition_event ''u1'' ''B'' ''["A"]'',
      flow_definition_event ''u1'' ''D'' ''["B","A"]'']\<close>

definition cycle_log :: "event list" where
  \<open>cycle_log =
     [flow_definition_event ''u1'' ''B'' ''["A"]'',
      flow_definition_event ''u1'' ''A'' ''["B"]'']\<close>

text \<open>A \<^verbatim>\<open>create_update\<close> record of an update at a time.\<close>

definition create_update_event :: "string \<Rightarrow> int \<Rightarrow> event" where
  "create_update_event uid t =
     \<lparr>event_type = ''create_update'', timestamp = t, origin = \<lparr>update_id = Some uid\<rparr>,
      details = \<lparr>flow_definition_output_dataset = None,
                 flow_definition_input_datasets = None,
                 flow_progress_expectations = None\<rparr>\<rparr>"

text \<open>A \<^verbatim>\<open>flow_progress\<close> record of an update, with what \<^verbatim>\<open>from_json\<close> makes of its expectations.\<close>

definition flow_progress_event :: "string \<Rightarrow> expectation list option \<Rightarrow> event" where
  "flow_progress_event uid parsed =
     \<lparr>event_type = ''flow_progress'', timestamp = 0, origin = \<lparr>update_id = Some uid\<rparr>,
      details = \<lparr>flow_definition_output_dataset = None,
                 flow_definition_input_datasets = None,
                 flow_progress_expectations = parsed\<rparr>\<rparr>"

definition three_updates_log :: "event list" where
  "three_updates_log =
     [create_update_event ''u1'' 10, flow_progress_event ''u9'' None,
      create_update_event ''u3'' 30, create_update_event ''u2'' 20]"

definition valid_id_orders :: "int \<Rightarrow> int \<Rightarrow> expectation" where
  "valid_id_orders passed failed =
     \<lparr>name = Some ''valid_id'', dataset = Some ''orders'',
      passed_records = Some passed, failed_records = Some failed\<rparr>"

definition quality_log :: "event list" where
  "quality_log =
     [flow_progress_event ''u1'' (Some [valid_id_orders 10 2]),
      flow_progress_event ''u1'' (Some [valid_id_orders 5 1])]"

text \<open>
  An expectation whose payload leaves the key \<^verbatim>\<open>passed_records\<close> out, as in
  \<^verbatim>\<open>[{"name":"valid_id","dataset":"orders","failed_records":1}]\<close>: \<^verbatim>\<open>from_json\<close> gives the
  element with \<^verbatim>\<open>NULL\<close> for the missing field.
\<close>

definition valid_id_orders_failed_only :: "int \<Rightarrow> expectation" where
  "valid_id_orders_failed_only failed =
     \<lparr>name = Some ''valid_id'', dataset = Some ''orders'',
      passed_records = None, failed_records = Some failed\<rparr>"

definition partly_parsed_log :: "event list" where
  "partly_parsed_log =
     [flow_progress_event ''u1'' (Some [valid_id_orders 10 2]),
      flow_progress_event ''u1'' (Some [valid_id_orders_failed_only 1])]"

definition two_updates_log :: "event list" where
  \<open>two_updates_log =
     [create_update_event ''u1'' 1, flow_definition_event ''u1'' ''B'' ''["A"]'',
      create_update_event ''u2'' 2, flow_definition_event ''u2'' ''B'' ''["C"]'']\<close>

section \<open>Properties of the lineage query\<close>

subsection \<open>The levels, row by row\<close>


text \<open>
  The left join followed by its \<^verbatim>\<open>WHERE\<close> is an inner join: each row of the level before,
  with each row of \<open>l1\<close> whose output dataset is its input dataset.
\<close>

lemma join_level_Nil: "join_level d [] nxt = []"
  by (simp add: join_level_def left_join_def)

lemma join_level_Cons:
  "join_level d (p # ps) nxt =
     map (\<lambda>n. \<lparr>output_dataset = output_dataset p, input_depth = d, input_dataset = input_dataset n\<rparr>)
       (filter (\<lambda>n. output_dataset n = Some (input_dataset p)) nxt)
     @ join_level d ps nxt"
proof (cases "filter (\<lambda>n. output_dataset n = Some (input_dataset p)) nxt")
  case Nil
  then show ?thesis by (simp add: join_level_def left_join_def)
next
  case (Cons m ms)
  have "concat (map (\<lambda>(p, m). (case m of None \<Rightarrow> []
         | Some n \<Rightarrow> [\<lparr>output_dataset = output_dataset p, input_depth = d,
                      input_dataset = input_dataset n\<rparr>]))
        (map (\<lambda>n. (p, Some n)) ns))
      = map (\<lambda>n. \<lparr>output_dataset = output_dataset p, input_depth = d,
                   input_dataset = input_dataset n\<rparr>) ns" for ns
    by (induction ns) simp_all
  from this [of "m # ms"] Cons show ?thesis
    by (simp add: join_level_def left_join_def)
qed

lemma inputs_of_Nil: "inputs_of [] out = []"
  by (simp add: inputs_of_def)

lemma inputs_of_Cons:
  "inputs_of (r # rs) out =
     (if output_dataset r = out then input_dataset r # inputs_of rs out else inputs_of rs out)"
  by (simp add: inputs_of_def)

lemma inputs_of_append: "inputs_of (xs @ ys) out = inputs_of xs out @ inputs_of ys out"
  by (simp add: inputs_of_def)

lemma inputs_of_map_row:
  "inputs_of (map (\<lambda>x. \<lparr>output_dataset = out', input_depth = d, input_dataset = g x\<rparr>) ys) out =
     (if out' = out then map g ys else [])"
  by (simp add: inputs_of_def filter_map comp_def)

lemma inputs_of_join_level:
  "inputs_of (join_level d prev nxt) out =
     concat (map (\<lambda>y. inputs_of nxt (Some y)) (inputs_of prev out))"
proof (induction prev)
  case Nil
  show ?case by (simp add: join_level_Nil inputs_of_Nil)
next
  case (Cons p ps)
  have "inputs_of nxt (Some (input_dataset p)) =
          map input_dataset (filter (\<lambda>n. output_dataset n = Some (input_dataset p)) nxt)"
    by (simp add: inputs_of_def)
  with Cons.IH show ?case
    by (simp add: join_level_Cons inputs_of_append inputs_of_map_row inputs_of_Cons)
qed

lemma l1_Nil: "l1 [] uid = []"
  by (simp add: l1_def l1_arr_def l1_raw_def)

lemma l1_Cons:
  "l1 (e # es) uid =
     (if event_type e = ''flow_definition'' \<and> update_id (origin e) = Some uid
      then map (\<lambda>x. \<lparr>output_dataset = flow_definition_output_dataset (details e),
                      input_depth = 1, input_dataset = x\<rparr>)
             (explode (map_option regexp_extract_all (flow_definition_input_datasets (details e))))
      else [])
     @ l1 es uid"
  by (simp add: l1_def l1_arr_def l1_raw_def)

lemma inputs_of_l1:
  "inputs_of (l1 event_log_raw uid) out =
     concat (map (\<lambda>e. explode (map_option regexp_extract_all
                                   (flow_definition_input_datasets (details e))))
       (filter (\<lambda>e. event_type e = ''flow_definition'' \<and> update_id (origin e) = Some uid
                 \<and> flow_definition_output_dataset (details e) = out) event_log_raw))"
  by (induction event_log_raw)
    (simp_all add: l1_Nil l1_Cons inputs_of_Nil inputs_of_append inputs_of_map_row)

lemma set_inputs_of_l1:
  "set (inputs_of (l1 event_log_raw uid) out) = direct_inputs event_log_raw uid out"
  by (simp add: inputs_of_l1 direct_inputs_def)

lemma set_inputs_of_join_level:
  "set (inputs_of (join_level d prev nxt) out) =
     (\<Union>y \<in> set (inputs_of prev out). set (inputs_of nxt (Some y)))"
  by (simp add: inputs_of_join_level)

lemma set_inputs_of_lN:
  "set (inputs_of (lN event_log_raw uid k) out) = ancestors_at event_log_raw uid out k"
proof (induction k rule: ancestors_at.induct [of _ event_log_raw uid out])
  case (1 event_log_raw uid out)
  show ?case by (simp add: inputs_of_Nil)
next
  case (2 event_log_raw uid out)
  show ?case by (simp add: set_inputs_of_l1)
next
  case (3 event_log_raw uid out k)
  then show ?case by (simp add: set_inputs_of_join_level set_inputs_of_l1)
qed

lemma lN_2: "lN event_log_raw uid 2 = l2 event_log_raw uid"
  by (simp add: numeral_2_eq_2 l2_def)

lemma lN_3: "lN event_log_raw uid 3 = l3 event_log_raw uid"
  by (simp add: numeral_3_eq_3 l3_def l2_def numeral_2_eq_2)

subsection \<open>The pivot\<close>

text \<open>
  Every row of a level carries that level's depth, so the pivot's column for a depth collects
  from that level alone; and every output dataset of a deeper level is one of \<open>l1\<close>.
\<close>

lemma depth_l1: "r \<in> set (l1 event_log_raw uid) \<Longrightarrow> input_depth r = 1"
  by (induction event_log_raw) (auto simp: l1_Nil l1_Cons split: if_splits)

lemma depth_join_level: "r \<in> set (join_level d prev nxt) \<Longrightarrow> input_depth r = d"
  by (induction prev) (auto simp: join_level_Nil join_level_Cons)

lemma outputs_join_level:
  "r \<in> set (join_level d prev nxt) \<Longrightarrow> output_dataset r \<in> output_dataset ` set prev"
  by (induction prev) (auto simp: join_level_Nil join_level_Cons)

lemma filter_depth_same:
  "\<forall>r \<in> set rows. input_depth r = d \<Longrightarrow>
     map input_dataset (filter (\<lambda>r. output_dataset r = out \<and> input_depth r = d) rows) =
       inputs_of rows out"
  by (induction rows) (simp_all add: inputs_of_def)

lemma filter_depth_other:
  "\<forall>r \<in> set rows. input_depth r = d' \<Longrightarrow> d \<noteq> d' \<Longrightarrow>
     filter (\<lambda>r. output_dataset r = out \<and> input_depth r = d) rows = []"
  by (induction rows) simp_all

lemma depth_l2: "\<forall>r \<in> set (l2 event_log_raw uid). input_depth r = 2"
  by (simp add: l2_def depth_join_level)

lemma depth_l3: "\<forall>r \<in> set (l3 event_log_raw uid). input_depth r = 3"
  by (simp add: l3_def depth_join_level)

lemma pivot_cell_1:
  "pivot_cell (union_all event_log_raw uid) out 1 =
     collect_set (inputs_of (l1 event_log_raw uid) out)"
proof -
  have a: "\<forall>r \<in> set (l1 event_log_raw uid). input_depth r = Suc 0" by (simp add: depth_l1)
  show ?thesis
    unfolding pivot_cell_def union_all_def filter_append map_append
    by (simp add: filter_depth_same [OF a]
        filter_depth_other [OF depth_l2] filter_depth_other [OF depth_l3])
qed

lemma pivot_cell_2:
  "pivot_cell (union_all event_log_raw uid) out 2 =
     collect_set (inputs_of (l2 event_log_raw uid) out)"
proof -
  have a: "\<forall>r \<in> set (l1 event_log_raw uid). input_depth r = Suc 0" by (simp add: depth_l1)
  show ?thesis
    unfolding pivot_cell_def union_all_def filter_append map_append
    by (simp add: filter_depth_same [OF depth_l2]
        filter_depth_other [OF a] filter_depth_other [OF depth_l3])
qed

lemma pivot_cell_3:
  "pivot_cell (union_all event_log_raw uid) out 3 =
     collect_set (inputs_of (l3 event_log_raw uid) out)"
proof -
  have a: "\<forall>r \<in> set (l1 event_log_raw uid). input_depth r = Suc 0" by (simp add: depth_l1)
  show ?thesis
    unfolding pivot_cell_def union_all_def filter_append map_append
    by (simp add: filter_depth_same [OF depth_l3]
        filter_depth_other [OF a] filter_depth_other [OF depth_l2])
qed

lemma outputs_union_all:
  "output_dataset ` set (union_all event_log_raw uid) = output_dataset ` set (l1 event_log_raw uid)"
proof -
  have "output_dataset ` set (l2 event_log_raw uid) \<subseteq> output_dataset ` set (l1 event_log_raw uid)"
    unfolding l2_def using outputs_join_level by blast
  moreover have "output_dataset ` set (l3 event_log_raw uid)
      \<subseteq> output_dataset ` set (l2 event_log_raw uid)"
    unfolding l3_def using outputs_join_level by blast
  ultimately show ?thesis
    unfolding union_all_def set_append image_Un by blast
qed

lemma inputs_of_empty_iff:
  "inputs_of rows out = [] \<longleftrightarrow> out \<notin> output_dataset ` set rows"
  by (induction rows) (auto simp: inputs_of_Nil inputs_of_Cons)

lemma lineage_row:
  assumes "row \<in> set (lineage event_log_raw uid)"
  shows "pivot_output_dataset row \<in> output_dataset ` set (l1 event_log_raw uid)"
    and "L1 row = collect_set (inputs_of (l1 event_log_raw uid) (pivot_output_dataset row))"
    and "L2 row = collect_set (inputs_of (l2 event_log_raw uid) (pivot_output_dataset row))"
    and "L3 row = collect_set (inputs_of (l3 event_log_raw uid) (pivot_output_dataset row))"
proof -
  from assms obtain out where out: "out \<in> output_dataset ` set (union_all event_log_raw uid)"
    and row: "row = \<lparr>pivot_output_dataset = out, L1 = pivot_cell (union_all event_log_raw uid) out 1,
                 L2 = pivot_cell (union_all event_log_raw uid) out 2,
                 L3 = pivot_cell (union_all event_log_raw uid) out 3\<rparr>"
    unfolding lineage_def pivot_def by auto
  from out show "pivot_output_dataset row \<in> output_dataset ` set (l1 event_log_raw uid)"
    by (simp add: row outputs_union_all)
  show "L1 row = collect_set (inputs_of (l1 event_log_raw uid) (pivot_output_dataset row))"
    by (simp add: row pivot_cell_1 [unfolded One_nat_def])
  show "L2 row = collect_set (inputs_of (l2 event_log_raw uid) (pivot_output_dataset row))"
    by (simp add: row pivot_cell_2)
  show "L3 row = collect_set (inputs_of (l3 event_log_raw uid) (pivot_output_dataset row))"
    by (simp add: row pivot_cell_3)
qed

lemma lineage_keys:
  "pivot_output_dataset ` set (lineage event_log_raw uid) =
     output_dataset ` set (l1 event_log_raw uid)"
  unfolding lineage_def pivot_def by (simp add: image_image outputs_union_all)

lemma lineage_keys_distinct: "distinct (map pivot_output_dataset (lineage event_log_raw uid))"
  unfolding lineage_def pivot_def by (simp add: comp_def)


subsection \<open>The example logs, evaluated\<close>

lemma l1_diamond:
  "l1 diamond_log ''u1'' =
     [\<lparr>output_dataset = Some ''B'', input_depth = 1, input_dataset = ''A''\<rparr>,
      \<lparr>output_dataset = Some ''C'', input_depth = 1, input_dataset = ''A''\<rparr>,
      \<lparr>output_dataset = Some ''D'', input_depth = 1, input_dataset = ''B''\<rparr>,
      \<lparr>output_dataset = Some ''D'', input_depth = 1, input_dataset = ''C''\<rparr>]"
  by (simp add: diamond_log_def flow_definition_event_def l1_Nil l1_Cons explode_def)

lemma l2_diamond:
  "l2 diamond_log ''u1'' =
     [\<lparr>output_dataset = Some ''D'', input_depth = 2, input_dataset = ''A''\<rparr>,
      \<lparr>output_dataset = Some ''D'', input_depth = 2, input_dataset = ''A''\<rparr>]"
  by (simp add: l2_def l1_diamond join_level_Nil join_level_Cons)

lemma l3_diamond: "l3 diamond_log ''u1'' = []"
  by (simp add: l3_def l2_diamond l1_diamond join_level_Nil join_level_Cons)

lemma lineage_diamond:
  "lineage diamond_log ''u1'' =
     [\<lparr>pivot_output_dataset = Some ''B'', L1 = [''A''], L2 = [], L3 = []\<rparr>,
      \<lparr>pivot_output_dataset = Some ''C'', L1 = [''A''], L2 = [], L3 = []\<rparr>,
      \<lparr>pivot_output_dataset = Some ''D'', L1 = [''B'', ''C''], L2 = [''A''], L3 = []\<rparr>]"
  by (simp add: lineage_def pivot_def pivot_cell_def collect_set_def union_all_def
      l1_diamond l2_diamond l3_diamond)

lemma l1_shortcut:
  "l1 shortcut_log ''u1'' =
     [\<lparr>output_dataset = Some ''B'', input_depth = 1, input_dataset = ''A''\<rparr>,
      \<lparr>output_dataset = Some ''D'', input_depth = 1, input_dataset = ''B''\<rparr>,
      \<lparr>output_dataset = Some ''D'', input_depth = 1, input_dataset = ''A''\<rparr>]"
  by (simp add: shortcut_log_def flow_definition_event_def l1_Nil l1_Cons explode_def)

lemma l2_shortcut:
  "l2 shortcut_log ''u1'' =
     [\<lparr>output_dataset = Some ''D'', input_depth = 2, input_dataset = ''A''\<rparr>]"
  by (simp add: l2_def l1_shortcut join_level_Nil join_level_Cons)

lemma l3_shortcut: "l3 shortcut_log ''u1'' = []"
  by (simp add: l3_def l2_shortcut l1_shortcut join_level_Nil join_level_Cons)

lemma lineage_shortcut:
  "lineage shortcut_log ''u1'' =
     [\<lparr>pivot_output_dataset = Some ''B'', L1 = [''A''], L2 = [], L3 = []\<rparr>,
      \<lparr>pivot_output_dataset = Some ''D'', L1 = [''B'', ''A''], L2 = [''A''], L3 = []\<rparr>]"
  by (simp add: lineage_def pivot_def pivot_cell_def collect_set_def union_all_def
      l1_shortcut l2_shortcut l3_shortcut)

lemma l1_cycle:
  "l1 cycle_log ''u1'' =
     [\<lparr>output_dataset = Some ''B'', input_depth = 1, input_dataset = ''A''\<rparr>,
      \<lparr>output_dataset = Some ''A'', input_depth = 1, input_dataset = ''B''\<rparr>]"
  by (simp add: cycle_log_def flow_definition_event_def l1_Nil l1_Cons explode_def)

lemma l2_cycle:
  "l2 cycle_log ''u1'' =
     [\<lparr>output_dataset = Some ''B'', input_depth = 2, input_dataset = ''B''\<rparr>,
      \<lparr>output_dataset = Some ''A'', input_depth = 2, input_dataset = ''A''\<rparr>]"
  by (simp add: l2_def l1_cycle join_level_Nil join_level_Cons)

lemma l3_cycle:
  "l3 cycle_log ''u1'' =
     [\<lparr>output_dataset = Some ''B'', input_depth = 3, input_dataset = ''A''\<rparr>,
      \<lparr>output_dataset = Some ''A'', input_depth = 3, input_dataset = ''B''\<rparr>]"
  by (simp add: l3_def l2_cycle l1_cycle join_level_Nil join_level_Cons)

lemma lineage_cycle:
  "lineage cycle_log ''u1'' =
     [\<lparr>pivot_output_dataset = Some ''B'', L1 = [''A''], L2 = [''B''], L3 = [''A'']\<rparr>,
      \<lparr>pivot_output_dataset = Some ''A'', L1 = [''B''], L2 = [''A''], L3 = [''B'']\<rparr>]"
  by (simp add: lineage_def pivot_def pivot_cell_def collect_set_def union_all_def
      l1_cycle l2_cycle l3_cycle)

subsection \<open>Saturation, size and cycles\<close>

lemma collect_set_empty_iff: "collect_set xs = [] \<longleftrightarrow> xs = []"
  by (simp add: collect_set_def)

lemma lN_saturated:
  "1 \<le> k \<Longrightarrow> k \<le> j \<Longrightarrow> inputs_of (lN event_log_raw uid k) out = [] \<Longrightarrow>
     inputs_of (lN event_log_raw uid j) out = []"
proof (induction j)
  case 0
  then show ?case by simp
next
  case (Suc j)
  show ?case
  proof (cases "k = Suc j")
    case True
    with Suc.prems show ?thesis by simp
  next
    case False
    with Suc.prems have kj: "k \<le> j" by simp
    with Suc have IH: "inputs_of (lN event_log_raw uid j) out = []" by simp
    from kj Suc.prems(1) obtain j' where "j = Suc j'" by (cases j) auto
    with IH show ?thesis by (simp add: inputs_of_join_level)
  qed
qed

lemma length_join_level: "length (join_level d prev nxt) \<le> length prev * length nxt"
proof (induction prev)
  case Nil
  show ?case by (simp add: join_level_Nil)
next
  case (Cons p ps)
  have "length (filter (\<lambda>n. output_dataset n = Some (input_dataset p)) nxt) \<le> length nxt"
    by simp
  from add_le_mono [OF this Cons.IH] show ?case by (simp add: join_level_Cons)
qed

lemma length_lN: "length (lN event_log_raw uid k) \<le> length (l1 event_log_raw uid) ^ k"
proof (induction k rule: lN.induct [of _ event_log_raw uid])
  case (1 event_log_raw uid)
  show ?case by simp
next
  case (2 event_log_raw uid)
  show ?case by simp
next
  case (3 event_log_raw uid k)
  have "length (lN event_log_raw uid (Suc (Suc k)))
      \<le> length (lN event_log_raw uid (Suc k)) * length (l1 event_log_raw uid)"
    by (simp add: length_join_level)
  also have "\<dots> \<le> length (l1 event_log_raw uid) ^ Suc k * length (l1 event_log_raw uid)"
    using 3 by (simp add: mult_le_mono1)
  finally show ?case by (simp add: mult.commute)
qed

lemma length_lineage: "length (lineage event_log_raw uid) \<le> length (l1 event_log_raw uid)"
proof -
  have "length (lineage event_log_raw uid) = card (output_dataset ` set (l1 event_log_raw uid))"
    unfolding lineage_def pivot_def
    by (simp add: length_remdups_card_conv outputs_union_all)
  also have "\<dots> \<le> card (set (l1 event_log_raw uid))"
    by (simp add: card_image_le)
  also have "\<dots> \<le> length (l1 event_log_raw uid)"
    by (simp add: card_length)
  finally show ?thesis .
qed

lemma ancestors_at_add:
  "ancestors_at event_log_raw uid out (Suc p + Suc k) =
     (\<Union>y \<in> ancestors_at event_log_raw uid out (Suc p).
        ancestors_at event_log_raw uid (Some y) (Suc k))"
proof (induction k)
  case 0
  show ?case by simp
next
  case (Suc k)
  have "ancestors_at event_log_raw uid out (Suc p + Suc (Suc k)) =
      (\<Union>z \<in> ancestors_at event_log_raw uid out (Suc p + Suc k).
         direct_inputs event_log_raw uid (Some z))"
    by simp
  also have "\<dots> = (\<Union>y \<in> ancestors_at event_log_raw uid out (Suc p).
        \<Union>z \<in> ancestors_at event_log_raw uid (Some y) (Suc k).
          direct_inputs event_log_raw uid (Some z))"
    unfolding Suc.IH by blast
  finally show ?case by simp
qed

lemma lN_cycle_reappears:
  assumes "r \<in> set (inputs_of (lN event_log_raw uid p) (Some r))"
    and "x \<in> set (inputs_of (lN event_log_raw uid k) (Some r))"
  shows "x \<in> set (inputs_of (lN event_log_raw uid (p + k)) (Some r))"
proof -
  from assms(1) obtain p' where p: "p = Suc p'"
    by (cases p) (simp_all add: inputs_of_Nil)
  from assms(2) obtain k' where k: "k = Suc k'"
    by (cases k) (simp_all add: inputs_of_Nil)
  from assms show ?thesis
    unfolding set_inputs_of_lN p k ancestors_at_add by blast
qed

lemma lN_diamond_3: "lN diamond_log ''u1'' 3 = []"
  by (simp add: lN_3 l3_diamond)

lemma pivot_cell_absent:
  "out \<notin> output_dataset ` set rows \<Longrightarrow> pivot_cell rows out d = []"
  by (induction rows) (auto simp: pivot_cell_def collect_set_def)

section \<open>The claims about the lineage query\<close>

text \<open>
  Claim C1. Depth 1 is exactly the set of direct inputs of the root. For every log, update
  and dataset \<open>r\<close>: the input datasets that \<open>l1\<close> holds for \<open>r\<close> are the names in the
  \<^verbatim>\<open>input_datasets\<close> of the update's \<^verbatim>\<open>flow_definition\<close> records whose \<^verbatim>\<open>output_dataset\<close> is
  \<open>r\<close>; the column \<open>L1\<close> of the row of \<open>r\<close> in the result of the query is that set; and the
  result has a row for \<open>r\<close> exactly when the set is not empty.
\<close>

theorem C1_depth1_is_direct_inputs:
  "set (inputs_of (l1 event_log_raw uid) (Some r)) = direct_inputs event_log_raw uid (Some r)
   \<and> (\<forall>row \<in> set (lineage event_log_raw uid).
        pivot_output_dataset row = Some r \<longrightarrow>
          set (L1 row) = direct_inputs event_log_raw uid (Some r))
   \<and> ((\<exists>row \<in> set (lineage event_log_raw uid). pivot_output_dataset row = Some r)
        \<longleftrightarrow> direct_inputs event_log_raw uid (Some r) \<noteq> {})"
proof (intro conjI ballI impI)
  show l1: "set (inputs_of (l1 event_log_raw uid) (Some r)) = direct_inputs event_log_raw uid (Some r)"
    by (rule set_inputs_of_l1)
  show "set (L1 row) = direct_inputs event_log_raw uid (Some r)"
    if "row \<in> set (lineage event_log_raw uid)" and "pivot_output_dataset row = Some r" for row
    using lineage_row(2) [OF that(1)] that(2) by (simp add: collect_set_def set_inputs_of_l1)
  have "(\<exists>row \<in> set (lineage event_log_raw uid). pivot_output_dataset row = Some r)
      \<longleftrightarrow> Some r \<in> pivot_output_dataset ` set (lineage event_log_raw uid)"
    by force
  also have "\<dots> \<longleftrightarrow> inputs_of (l1 event_log_raw uid) (Some r) \<noteq> []"
    by (simp add: lineage_keys inputs_of_empty_iff)
  also have "\<dots> \<longleftrightarrow> direct_inputs event_log_raw uid (Some r) \<noteq> {}"
    unfolding l1 [symmetric] by simp
  finally show "(\<exists>row \<in> set (lineage event_log_raw uid). pivot_output_dataset row = Some r)
      \<longleftrightarrow> direct_inputs event_log_raw uid (Some r) \<noteq> {}" .
qed

text \<open>The diamond at root \<open>D\<close>: the row is there, and its \<open>L1\<close> and the direct inputs are \<open>{B, C}\<close>.\<close>

theorem C1_depth1_is_direct_inputs_witness:
  "(\<exists>row \<in> set (lineage diamond_log ''u1'').
      pivot_output_dataset row = Some ''D'' \<and> set (L1 row) = {''B'', ''C''})
   \<and> direct_inputs diamond_log ''u1'' (Some ''D'') = {''B'', ''C''}"
proof -
  let ?row = "\<lparr>pivot_output_dataset = Some ''D'', L1 = [''B'', ''C''], L2 = [''A''], L3 = []\<rparr>"
  have row: "?row \<in> set (lineage diamond_log ''u1'')"
    by (simp add: lineage_diamond)
  from bspec [OF conjunct1 [OF conjunct2 [OF
    C1_depth1_is_direct_inputs [of diamond_log "''u1''" "''D''"]]] row]
  have "direct_inputs diamond_log ''u1'' (Some ''D'') = set (L1 ?row)"
    by simp
  then have inputs: "direct_inputs diamond_log ''u1'' (Some ''D'') = {''B'', ''C''}"
    by simp
  from row have "\<exists>row \<in> set (lineage diamond_log ''u1'').
      pivot_output_dataset row = Some ''D'' \<and> set (L1 row) = {''B'', ''C''}"
    by (intro bexI [of _ ?row]) simp_all
  with inputs show ?thesis by simp
qed

text \<open>
  Claim C2. The levels are not deduplicated against each other. In every row of the result
  each of \<open>L1\<close>, \<open>L2\<close>, \<open>L3\<close> is the full set of ancestors at that depth, whatever the shallower
  levels hold, so a dataset reachable at several depths is in the column of each of them.
  On the diamond \<open>{A\<rightarrow>B, A\<rightarrow>C, B\<rightarrow>D, C\<rightarrow>D}\<close> the row of \<open>D\<close> has \<open>L1 = {B, C}\<close> and \<open>A\<close> in
  \<open>L2\<close>; on \<open>{A\<rightarrow>B, B\<rightarrow>D, A\<rightarrow>D}\<close> the dataset \<open>A\<close> is in both \<open>L1\<close> and \<open>L2\<close> of \<open>D\<close>.
\<close>

theorem C2_no_dedup_across_depths:
  "(\<forall>row \<in> set (lineage event_log_raw uid).
      set (L1 row) = ancestors_at event_log_raw uid (pivot_output_dataset row) 1
      \<and> set (L2 row) = ancestors_at event_log_raw uid (pivot_output_dataset row) 2
      \<and> set (L3 row) = ancestors_at event_log_raw uid (pivot_output_dataset row) 3)
   \<and> filter (\<lambda>row. pivot_output_dataset row = Some ''D'') (lineage diamond_log ''u1'') =
       [\<lparr>pivot_output_dataset = Some ''D'', L1 = [''B'', ''C''], L2 = [''A''], L3 = []\<rparr>]
   \<and> filter (\<lambda>row. pivot_output_dataset row = Some ''D'') (lineage shortcut_log ''u1'') =
       [\<lparr>pivot_output_dataset = Some ''D'', L1 = [''B'', ''A''], L2 = [''A''], L3 = []\<rparr>]"
proof (intro conjI ballI)
  fix row
  assume row: "row \<in> set (lineage event_log_raw uid)"
  show "set (L1 row) = ancestors_at event_log_raw uid (pivot_output_dataset row) 1"
    using lineage_row(2) [OF row] by (simp add: collect_set_def set_inputs_of_l1)
  show "set (L2 row) = ancestors_at event_log_raw uid (pivot_output_dataset row) 2"
    using lineage_row(3) [OF row]
    by (simp add: collect_set_def lN_2 [symmetric] set_inputs_of_lN)
  show "set (L3 row) = ancestors_at event_log_raw uid (pivot_output_dataset row) 3"
    using lineage_row(4) [OF row]
    by (simp add: collect_set_def lN_3 [symmetric] set_inputs_of_lN)
next
  show "filter (\<lambda>row. pivot_output_dataset row = Some ''D'') (lineage diamond_log ''u1'') =
       [\<lparr>pivot_output_dataset = Some ''D'', L1 = [''B'', ''C''], L2 = [''A''], L3 = []\<rparr>]"
    by (simp add: lineage_diamond)
  show "filter (\<lambda>row. pivot_output_dataset row = Some ''D'') (lineage shortcut_log ''u1'') =
       [\<lparr>pivot_output_dataset = Some ''D'', L1 = [''B'', ''A''], L2 = [''A''], L3 = []\<rparr>]"
    by (simp add: lineage_shortcut)
qed

text \<open>The row of \<open>D\<close> in the second log: \<open>A\<close> is an ancestor at depths 1 and 2 and is in both columns.\<close>

theorem C2_no_dedup_across_depths_witness:
  "(\<exists>row \<in> set (lineage shortcut_log ''u1'').
      pivot_output_dataset row = Some ''D'' \<and> ''A'' \<in> set (L1 row) \<and> ''A'' \<in> set (L2 row))
   \<and> ''A'' \<in> ancestors_at shortcut_log ''u1'' (Some ''D'') 1
   \<and> ''A'' \<in> ancestors_at shortcut_log ''u1'' (Some ''D'') 2"
proof -
  let ?row = "\<lparr>pivot_output_dataset = Some ''D'', L1 = [''B'', ''A''], L2 = [''A''], L3 = []\<rparr>"
  have row: "?row \<in> set (lineage shortcut_log ''u1'')"
    by (simp add: lineage_shortcut)
  note levels = bspec [OF conjunct1 [OF C2_no_dedup_across_depths [of shortcut_log "''u1''"]] row]
  from conjunct1 [OF levels, symmetric]
  have "''A'' \<in> ancestors_at shortcut_log ''u1'' (Some ''D'') 1"
    by (simp del: ancestors_at.simps)
  moreover from conjunct1 [OF conjunct2 [OF levels], symmetric]
  have "''A'' \<in> ancestors_at shortcut_log ''u1'' (Some ''D'') 2"
    by (simp del: ancestors_at.simps)
  moreover from row have "\<exists>row \<in> set (lineage shortcut_log ''u1'').
      pivot_output_dataset row = Some ''D'' \<and> ''A'' \<in> set (L1 row) \<and> ''A'' \<in> set (L2 row)"
    by (intro bexI [of _ ?row]) simp_all
  ultimately show ?thesis by blast
qed

text \<open>
  Claim C3. Beyond saturation the levels are empty. The query has three levels; \<open>lN\<close>
  continues its chain to any depth and is \<open>l1\<close>, \<open>l2\<close>, \<open>l3\<close> at depths 1, 2, 3. Once a
  level holds nothing for an output dataset, every deeper level holds nothing for it either;
  in a row of the result, \<open>L1\<close> is never empty and an empty \<open>L2\<close> comes with an empty \<open>L3\<close>.
  The levels are total functions: there is no error to return.
\<close>

theorem C3_empty_beyond_saturation:
  "lN event_log_raw uid 1 = l1 event_log_raw uid
   \<and> lN event_log_raw uid 2 = l2 event_log_raw uid
   \<and> lN event_log_raw uid 3 = l3 event_log_raw uid
   \<and> (\<forall>k j. 1 \<le> k \<and> k \<le> j \<and> inputs_of (lN event_log_raw uid k) out = [] \<longrightarrow>
         inputs_of (lN event_log_raw uid j) out = [])
   \<and> (\<forall>row \<in> set (lineage event_log_raw uid). L1 row \<noteq> [] \<and> (L2 row = [] \<longrightarrow> L3 row = []))"
proof (intro conjI allI impI ballI)
  show "lN event_log_raw uid 1 = l1 event_log_raw uid" by simp
  show "lN event_log_raw uid 2 = l2 event_log_raw uid" by (rule lN_2)
  show "lN event_log_raw uid 3 = l3 event_log_raw uid" by (rule lN_3)
  show "inputs_of (lN event_log_raw uid j) out = []"
    if "1 \<le> k \<and> k \<le> j \<and> inputs_of (lN event_log_raw uid k) out = []" for k j
    using lN_saturated [of k j event_log_raw uid out] that by simp
next
  fix row
  assume row: "row \<in> set (lineage event_log_raw uid)"
  show "L1 row \<noteq> []"
    using lineage_row(1,2) [OF row] by (simp add: collect_set_empty_iff inputs_of_empty_iff)
  assume "L2 row = []"
  then have "inputs_of (l2 event_log_raw uid) (pivot_output_dataset row) = []"
    using lineage_row(3) [OF row] by (simp add: collect_set_empty_iff)
  then have "inputs_of (l3 event_log_raw uid) (pivot_output_dataset row) = []"
    by (simp add: l3_def inputs_of_join_level)
  then show "L3 row = []"
    using lineage_row(4) [OF row] by (simp add: collect_set_def)
qed

text \<open>
  The diamond has depth 2 from \<open>D\<close>: level 3 is empty, so is level 7, and the rows of \<open>B\<close> and
  \<open>C\<close> have empty \<open>L2\<close> and \<open>L3\<close>.
\<close>

theorem C3_empty_beyond_saturation_witness:
  "(1::nat) \<le> 3 \<and> (3::nat) \<le> 7 \<and> inputs_of (lN diamond_log ''u1'' 3) (Some ''D'') = []
   \<and> inputs_of (lN diamond_log ''u1'' 7) (Some ''D'') = []
   \<and> (\<exists>row \<in> set (lineage diamond_log ''u1''). L2 row = [] \<and> L3 row = [])"
proof -
  have three: "inputs_of (lN diamond_log ''u1'' 3) (Some ''D'') = []"
    by (simp add: lN_diamond_3 inputs_of_Nil)
  note sat = conjunct1 [OF conjunct2 [OF conjunct2 [OF conjunct2
    [OF C3_empty_beyond_saturation [of diamond_log "''u1''" "Some ''D''"]]]]]
  from sat [rule_format, of 3 7] three
  have "inputs_of (lN diamond_log ''u1'' 7) (Some ''D'') = []"
    by simp
  moreover have "\<exists>row \<in> set (lineage diamond_log ''u1''). L2 row = [] \<and> L3 row = []"
    by (simp add: lineage_diamond)
  ultimately show ?thesis using three by simp
qed

text \<open>
  Claim C7. A root that is the output dataset of no edge is not an error. The query and its
  levels are total; for such a root every level, at any depth, holds nothing, the result has
  no row for it, and what the pivot would collect for it at depths 1, 2 and 3 is empty.
\<close>

theorem C7_missing_root_all_empty:
  assumes "Some root \<notin> output_dataset ` set (l1 event_log_raw uid)"
  shows "(\<forall>k. inputs_of (lN event_log_raw uid k) (Some root) = [])
     \<and> (\<forall>row \<in> set (lineage event_log_raw uid). pivot_output_dataset row \<noteq> Some root)
     \<and> pivot_cell (union_all event_log_raw uid) (Some root) 1 = []
     \<and> pivot_cell (union_all event_log_raw uid) (Some root) 2 = []
     \<and> pivot_cell (union_all event_log_raw uid) (Some root) 3 = []"
proof (intro conjI allI ballI)
  have one: "inputs_of (lN event_log_raw uid 1) (Some root) = []"
    using assms by (simp add: inputs_of_empty_iff)
  show "inputs_of (lN event_log_raw uid k) (Some root) = []" for k
  proof (cases k)
    case 0
    then show ?thesis by (simp add: inputs_of_Nil)
  next
    case (Suc k')
    then have "1 \<le> (1::nat)" and "1 \<le> k" by simp_all
    from lN_saturated [OF this one] show ?thesis .
  qed
  show "pivot_output_dataset row \<noteq> Some root"
    if "row \<in> set (lineage event_log_raw uid)" for row
    using lineage_row(1) [OF that] assms by auto
  from assms have absent: "Some root \<notin> output_dataset ` set (union_all event_log_raw uid)"
    by (simp add: outputs_union_all)
  show "pivot_cell (union_all event_log_raw uid) (Some root) 1 = []"
    by (rule pivot_cell_absent [OF absent])
  show "pivot_cell (union_all event_log_raw uid) (Some root) 2 = []"
    by (rule pivot_cell_absent [OF absent])
  show "pivot_cell (union_all event_log_raw uid) (Some root) 3 = []"
    by (rule pivot_cell_absent [OF absent])
qed

text \<open>
  In the diamond \<open>A\<close> is the output of no edge: nothing at any depth and no row for \<open>A\<close>, while
  the result still has its other rows.
\<close>

theorem C7_missing_root_all_empty_witness:
  "Some ''A'' \<notin> output_dataset ` set (l1 diamond_log ''u1'')
   \<and> (\<forall>k. inputs_of (lN diamond_log ''u1'' k) (Some ''A'') = [])
   \<and> filter (\<lambda>row. pivot_output_dataset row = Some ''A'') (lineage diamond_log ''u1'') = []
   \<and> length (lineage diamond_log ''u1'') = 3"
proof -
  have absent: "Some ''A'' \<notin> output_dataset ` set (l1 diamond_log ''u1'')"
    by (simp add: l1_diamond)
  note C7 = C7_missing_root_all_empty [OF absent]
  from conjunct1 [OF C7]
  have levels: "\<forall>k. inputs_of (lN diamond_log ''u1'' k) (Some ''A'') = []" .
  from conjunct1 [OF conjunct2 [OF C7]]
  have "filter (\<lambda>row. pivot_output_dataset row = Some ''A'') (lineage diamond_log ''u1'') = []"
    by (simp only: filter_empty_conv)
  moreover have "length (lineage diamond_log ''u1'') = 3"
    by (simp add: lineage_diamond)
  ultimately show ?thesis using absent levels by blast
qed

text \<open>
  Claim C8. The query terminates on every log, cyclic or not. Every level is a finite list
  given by a structurally recursive function: level \<open>k\<close> has at most \<open>|l1|\<^sup>k\<close> rows and the
  result at most \<open>|l1|\<close> rows. A dataset on a cycle comes back: where \<open>r\<close> is its own ancestor
  at depth \<open>p\<close>, an ancestor of \<open>r\<close> at depth \<open>k\<close> is one at depth \<open>p + k\<close> too. On the cycle
  \<open>{A\<rightarrow>B, B\<rightarrow>A}\<close> the row of \<open>A\<close> has \<open>B\<close> at depths 1 and 3 and \<open>A\<close> itself at depth 2.
\<close>

theorem C8_terminates_on_cycles:
  "(\<forall>k. length (lN event_log_raw uid k) \<le> length (l1 event_log_raw uid) ^ k)
   \<and> length (l2 event_log_raw uid) \<le> length (l1 event_log_raw uid) ^ 2
   \<and> length (l3 event_log_raw uid) \<le> length (l1 event_log_raw uid) ^ 3
   \<and> length (lineage event_log_raw uid) \<le> length (l1 event_log_raw uid)
   \<and> (\<forall>p k x r. r \<in> set (inputs_of (lN event_log_raw uid p) (Some r))
          \<and> x \<in> set (inputs_of (lN event_log_raw uid k) (Some r)) \<longrightarrow>
          x \<in> set (inputs_of (lN event_log_raw uid (p + k)) (Some r)))
   \<and> filter (\<lambda>row. pivot_output_dataset row = Some ''A'') (lineage cycle_log ''u1'') =
       [\<lparr>pivot_output_dataset = Some ''A'', L1 = [''B''], L2 = [''A''], L3 = [''B'']\<rparr>]"
proof (intro conjI allI impI)
  show "length (lN event_log_raw uid k) \<le> length (l1 event_log_raw uid) ^ k" for k
    by (rule length_lN)
  show "length (l2 event_log_raw uid) \<le> length (l1 event_log_raw uid) ^ 2"
    using length_lN [of event_log_raw uid 2] by (simp only: lN_2)
  show "length (l3 event_log_raw uid) \<le> length (l1 event_log_raw uid) ^ 3"
    using length_lN [of event_log_raw uid 3] by (simp only: lN_3)
  show "length (lineage event_log_raw uid) \<le> length (l1 event_log_raw uid)"
    by (rule length_lineage)
  show "x \<in> set (inputs_of (lN event_log_raw uid (p + k)) (Some r))"
    if "r \<in> set (inputs_of (lN event_log_raw uid p) (Some r))
          \<and> x \<in> set (inputs_of (lN event_log_raw uid k) (Some r))" for p k x r
    using lN_cycle_reappears [of r event_log_raw uid p x k] that by simp
  show "filter (\<lambda>row. pivot_output_dataset row = Some ''A'') (lineage cycle_log ''u1'') =
       [\<lparr>pivot_output_dataset = Some ''A'', L1 = [''B''], L2 = [''A''], L3 = [''B'']\<rparr>]"
    by (simp add: lineage_cycle)
qed

text \<open>On the cycle, with period 2: \<open>B\<close> is an ancestor of \<open>A\<close> at depths 1, 3 and 5.\<close>

theorem C8_terminates_on_cycles_witness:
  "''A'' \<in> set (inputs_of (lN cycle_log ''u1'' 2) (Some ''A''))
   \<and> ''B'' \<in> set (inputs_of (lN cycle_log ''u1'' 1) (Some ''A''))
   \<and> ''B'' \<in> set (inputs_of (lN cycle_log ''u1'' (2 + 1)) (Some ''A''))
   \<and> ''B'' \<in> set (inputs_of (lN cycle_log ''u1'' (2 + (2 + 1))) (Some ''A''))"
proof -
  note reappears = conjunct1 [OF conjunct2 [OF conjunct2 [OF conjunct2 [OF conjunct2
    [OF C8_terminates_on_cycles [of cycle_log "''u1''"]]]]], rule_format]
  have a: "''A'' \<in> set (inputs_of (lN cycle_log ''u1'' 2) (Some ''A''))"
    by (simp add: lN_2 l2_cycle inputs_of_def)
  have b: "''B'' \<in> set (inputs_of (lN cycle_log ''u1'' 1) (Some ''A''))"
    by (simp add: l1_cycle inputs_of_def)
  from reappears [of "''A''" 2 "''B''" 1] a b
  have c: "''B'' \<in> set (inputs_of (lN cycle_log ''u1'' (2 + 1)) (Some ''A''))"
    by blast
  from reappears [of "''A''" 2 "''B''" "2 + 1"] a c
  have d: "''B'' \<in> set (inputs_of (lN cycle_log ''u1'' (2 + (2 + 1))) (Some ''A''))"
    by blast
  from a b c d show ?thesis by blast
qed

text \<open>
  Claim C10. Within one depth a dataset appears once. \<open>L1\<close>, \<open>L2\<close> and \<open>L3\<close> of every row are
  free of duplicates, and the result has one row per output dataset. In the diamond the level
  \<open>l2\<close> holds \<open>A\<close> twice for \<open>D\<close>, once through \<open>B\<close> and once through \<open>C\<close>, and \<open>L2\<close> of \<open>D\<close> holds
  it once.
\<close>

theorem C10_no_duplicates_within_a_depth:
  "(\<forall>row \<in> set (lineage event_log_raw uid).
      distinct (L1 row) \<and> distinct (L2 row) \<and> distinct (L3 row))
   \<and> distinct (map pivot_output_dataset (lineage event_log_raw uid))
   \<and> inputs_of (l2 diamond_log ''u1'') (Some ''D'') = [''A'', ''A'']
   \<and> filter (\<lambda>row. pivot_output_dataset row = Some ''D'') (lineage diamond_log ''u1'') =
       [\<lparr>pivot_output_dataset = Some ''D'', L1 = [''B'', ''C''], L2 = [''A''], L3 = []\<rparr>]"
proof (intro conjI ballI)
  fix row
  assume row: "row \<in> set (lineage event_log_raw uid)"
  show "distinct (L1 row)" using lineage_row(2) [OF row] by (simp add: collect_set_def)
  show "distinct (L2 row)" using lineage_row(3) [OF row] by (simp add: collect_set_def)
  show "distinct (L3 row)" using lineage_row(4) [OF row] by (simp add: collect_set_def)
next
  show "distinct (map pivot_output_dataset (lineage event_log_raw uid))"
    by (rule lineage_keys_distinct)
  show "inputs_of (l2 diamond_log ''u1'') (Some ''D'') = [''A'', ''A'']"
    by (simp add: l2_diamond inputs_of_def)
  show "filter (\<lambda>row. pivot_output_dataset row = Some ''D'') (lineage diamond_log ''u1'') =
       [\<lparr>pivot_output_dataset = Some ''D'', L1 = [''B'', ''C''], L2 = [''A''], L3 = []\<rparr>]"
    by (simp add: lineage_diamond)
qed

text \<open>The row of \<open>D\<close> in the diamond.\<close>

theorem C10_no_duplicates_within_a_depth_witness:
  "\<exists>row \<in> set (lineage diamond_log ''u1'').
     pivot_output_dataset row = Some ''D'' \<and> L2 row = [''A'']
     \<and> distinct (L1 row) \<and> distinct (L2 row) \<and> distinct (L3 row)"
proof -
  let ?row = "\<lparr>pivot_output_dataset = Some ''D'', L1 = [''B'', ''C''], L2 = [''A''], L3 = []\<rparr>"
  have row: "?row \<in> set (lineage diamond_log ''u1'')"
    by (simp add: lineage_diamond)
  from bspec [OF conjunct1 [OF C10_no_duplicates_within_a_depth [of diamond_log "''u1''"]] row]
  have "distinct (L1 ?row) \<and> distinct (L2 ?row) \<and> distinct (L3 ?row)" .
  with row show ?thesis by (intro bexI [of _ ?row]) simp_all
qed

section \<open>Properties of the latest update\<close>

lemma first_take_1: "first (take (Suc 0) xs) = first xs"
  by (cases xs) (simp_all add: first_def)

lemma first_Nil: "first [] = None"
  by (simp add: first_def)

lemma first_sort_key_least:
  assumes "xs \<noteq> []"
  shows "\<exists>e \<in> set xs. first (sort_key f xs) = Some e \<and> (\<forall>e' \<in> set xs. f e \<le> f e')"
proof (cases "sort_key f xs")
  case Nil
  then have "set xs = {}" using set_sort [of f xs] by simp
  with assms show ?thesis by simp
next
  case (Cons e es)
  have "sorted (map f (sort_key f xs))" by simp
  with Cons have least: "\<forall>e' \<in> set (e # es). f e \<le> f e'" by auto
  have mem: "set (e # es) = set xs" using Cons [symmetric] by simp
  then have "e \<in> set xs" by auto
  moreover have "first (sort_key f xs) = Some e" by (simp add: Cons first_def)
  moreover from least have "\<forall>e' \<in> set xs. f e \<le> f e'" by (simp only: mem)
  ultimately show ?thesis by blast
qed

lemma latest_update_id_none:
  "\<forall>e \<in> set event_log_raw. event_type e \<noteq> ''create_update'' \<Longrightarrow>
     latest_update_id event_log_raw = Inl AttributeError"
proof -
  assume "\<forall>e \<in> set event_log_raw. event_type e \<noteq> ''create_update''"
  then have "filter (\<lambda>e. event_type e = ''create_update'') event_log_raw = []"
    by (simp add: filter_empty_conv)
  then show ?thesis by (simp add: latest_update_id_def first_Nil)
qed

lemma latest_update_id_some:
  assumes "\<exists>e \<in> set event_log_raw. event_type e = ''create_update''"
  shows "\<exists>e \<in> set event_log_raw. event_type e = ''create_update''
      \<and> (\<forall>e' \<in> set event_log_raw. event_type e' = ''create_update'' \<longrightarrow> timestamp e' \<le> timestamp e)
      \<and> latest_update_id event_log_raw = Inr (update_id (origin e))"
proof -
  let ?rows = "filter (\<lambda>e. event_type e = ''create_update'') event_log_raw"
  from assms have "?rows \<noteq> []" by (simp add: filter_empty_conv)
  from first_sort_key_least [OF this, of "\<lambda>e. - timestamp e"]
  obtain e where e: "e \<in> set ?rows"
    and fst: "first (sort_key (\<lambda>e. - timestamp e) ?rows) = Some e"
    and least: "\<forall>e' \<in> set ?rows. - timestamp e \<le> - timestamp e'"
    by blast
  from fst have "latest_update_id event_log_raw = Inr (update_id (origin e))"
    by (simp add: latest_update_id_def first_take_1)
  moreover from e have "e \<in> set event_log_raw" and "event_type e = ''create_update''" by simp_all
  moreover from least
  have "\<forall>e' \<in> set event_log_raw. event_type e' = ''create_update'' \<longrightarrow> timestamp e' \<le> timestamp e"
    by simp
  ultimately show ?thesis by blast
qed

text \<open>
  Claim C4 says that on a log without a \<^verbatim>\<open>create_update\<close> record the latest update fails with
  \<open>NotFoundError\<close>. On the empty log, and on a log of one \<^verbatim>\<open>flow_progress\<close> record, the query
  has no row, \<^verbatim>\<open>first()\<close> is \<^verbatim>\<open>None\<close>, and reading its \<^verbatim>\<open>update_id\<close> raises
  \<^verbatim>\<open>AttributeError\<close>: the failure is not \<open>NotFoundError\<close>.
\<close>

theorem C4_fails_with_attribute_error_counterexample:
  "latest_update_id [] = Inl AttributeError
   \<and> latest_update_id [] \<noteq> Inl NotFoundError
   \<and> latest_update_id [flow_progress_event ''u1'' None] = Inl AttributeError
   \<and> latest_update_id [flow_progress_event ''u1'' None] \<noteq> Inl NotFoundError"
  by (simp add: latest_update_id_def first_def flow_progress_event_def)

text \<open>
  Claim C4, as the code has it. Where the log has a \<^verbatim>\<open>create_update\<close> record,
  \<open>latest_update_id\<close> returns the \<^verbatim>\<open>origin.update_id\<close> of a \<^verbatim>\<open>create_update\<close> record whose
  timestamp no other such record exceeds, and of the record with the greatest timestamp where
  one record alone has it. Where the log has no \<^verbatim>\<open>create_update\<close> record it fails with
  \<^verbatim>\<open>AttributeError\<close>; on no log does it fail with \<open>NotFoundError\<close>.
\<close>

theorem C4_latest_update_id:
  "((\<exists>e \<in> set event_log_raw. event_type e = ''create_update'') \<longrightarrow>
      (\<exists>e \<in> set event_log_raw. event_type e = ''create_update''
        \<and> (\<forall>e' \<in> set event_log_raw. event_type e' = ''create_update'' \<longrightarrow>
              timestamp e' \<le> timestamp e)
        \<and> latest_update_id event_log_raw = Inr (update_id (origin e))))
   \<and> (\<forall>e \<in> set event_log_raw. event_type e = ''create_update''
         \<and> (\<forall>e' \<in> set event_log_raw. event_type e' = ''create_update'' \<and> e' \<noteq> e \<longrightarrow>
               timestamp e' < timestamp e) \<longrightarrow>
         latest_update_id event_log_raw = Inr (update_id (origin e)))
   \<and> ((\<forall>e \<in> set event_log_raw. event_type e \<noteq> ''create_update'') \<longrightarrow>
         latest_update_id event_log_raw = Inl AttributeError)
   \<and> latest_update_id event_log_raw \<noteq> Inl NotFoundError"
proof (intro conjI impI ballI)
  show "latest_update_id event_log_raw \<noteq> Inl NotFoundError"
    by (simp add: latest_update_id_def split: option.splits)
  show "\<exists>e \<in> set event_log_raw. event_type e = ''create_update''
        \<and> (\<forall>e' \<in> set event_log_raw. event_type e' = ''create_update'' \<longrightarrow>
              timestamp e' \<le> timestamp e)
        \<and> latest_update_id event_log_raw = Inr (update_id (origin e))"
    if "\<exists>e \<in> set event_log_raw. event_type e = ''create_update''"
    using that by (rule latest_update_id_some)
  show "latest_update_id event_log_raw = Inl AttributeError"
    if "\<forall>e \<in> set event_log_raw. event_type e \<noteq> ''create_update''"
    using that by (rule latest_update_id_none)
next
  fix e
  assume e: "e \<in> set event_log_raw"
    and top: "event_type e = ''create_update''
         \<and> (\<forall>e' \<in> set event_log_raw. event_type e' = ''create_update'' \<and> e' \<noteq> e \<longrightarrow>
               timestamp e' < timestamp e)"
  then have "\<exists>e \<in> set event_log_raw. event_type e = ''create_update''" by blast
  from latest_update_id_some [OF this]
  obtain m where m: "m \<in> set event_log_raw" "event_type m = ''create_update''"
    and max: "\<forall>e' \<in> set event_log_raw. event_type e' = ''create_update'' \<longrightarrow>
                timestamp e' \<le> timestamp m"
    and res: "latest_update_id event_log_raw = Inr (update_id (origin m))"
    by blast
  have "m = e"
  proof (rule ccontr)
    assume "m \<noteq> e"
    with top m have "timestamp m < timestamp e" by blast
    moreover from max e top have "timestamp e \<le> timestamp m" by blast
    ultimately show False by simp
  qed
  with res show "latest_update_id event_log_raw = Inr (update_id (origin e))" by simp
qed

text \<open>
  Three \<^verbatim>\<open>create_update\<close> records at times 10, 30 and 20, out of order in the log: the update
  of time 30. A log with no such record: \<^verbatim>\<open>AttributeError\<close>.
\<close>

theorem C4_latest_update_id_witness:
  "latest_update_id three_updates_log = Inr (Some ''u3'')
   \<and> latest_update_id [flow_progress_event ''u9'' None] = Inl AttributeError"
proof -
  let ?e = "create_update_event ''u3'' 30"
  have "?e \<in> set three_updates_log" by (simp add: three_updates_log_def)
  moreover have "event_type ?e = ''create_update''
      \<and> (\<forall>e' \<in> set three_updates_log. event_type e' = ''create_update'' \<and> e' \<noteq> ?e \<longrightarrow>
            timestamp e' < timestamp ?e)"
    by (simp add: three_updates_log_def create_update_event_def flow_progress_event_def)
  ultimately have "latest_update_id three_updates_log = Inr (update_id (origin ?e))"
    using conjunct1 [OF conjunct2 [OF C4_latest_update_id [of three_updates_log]]] by blast
  then have a: "latest_update_id three_updates_log = Inr (Some ''u3'')"
    by (simp add: create_update_event_def)
  have "\<forall>e \<in> set [flow_progress_event ''u9'' None]. event_type e \<noteq> ''create_update''"
    by (simp add: flow_progress_event_def)
  with conjunct1 [OF conjunct2 [OF conjunct2
    [OF C4_latest_update_id [of "[flow_progress_event ''u9'' None]"]]]]
  have "latest_update_id [flow_progress_event ''u9'' None] = Inl AttributeError" by blast
  with a show ?thesis by simp
qed

section \<open>Properties of the data quality metrics\<close>

lemma map_filter_id_empty_iff: "List.map_filter id vs = [] \<longleftrightarrow> (\<forall>v \<in> set vs. v = None)"
  by (induction vs) (auto simp: List.map_filter_simps split: option.splits)

lemma sum_list_map_filter_id:
  "sum_list (List.map_filter id vs) = (\<Sum>v\<leftarrow>vs. case v of None \<Rightarrow> 0 | Some n \<Rightarrow> n)"
  by (induction vs) (auto simp: List.map_filter_simps split: option.splits)

lemma sql_sum_eq:
  "sql_sum vs =
     (if \<forall>v \<in> set vs. v = None then None
      else Some (\<Sum>v\<leftarrow>vs. case v of None \<Rightarrow> (0::int) | Some n \<Rightarrow> n))"
proof (cases "List.map_filter id vs")
  case Nil
  then show ?thesis by (simp add: sql_sum_def map_filter_id_empty_iff [symmetric])
next
  case (Cons n ns)
  then have "\<not> (\<forall>v \<in> set vs. v = None)"
    by (simp add: map_filter_id_empty_iff [symmetric])
  moreover have "sql_sum vs = Some (sum_list (List.map_filter id vs))"
    by (simp add: sql_sum_def Cons)
  ultimately show ?thesis by (simp add: sum_list_map_filter_id)
qed

lemma row_expectations_Nil: "row_expectations [] uid = []"
  by (simp add: row_expectations_def)

lemma row_expectations_append:
  "row_expectations (xs @ ys) uid = row_expectations xs uid @ row_expectations ys uid"
  by (simp add: row_expectations_def)

lemma row_expectations_Cons:
  "row_expectations (e # es) uid =
     (if event_type e = ''flow_progress'' \<and> update_id (origin e) = Some uid
      then explode (flow_progress_expectations (details e)) else [])
     @ row_expectations es uid"
  by (simp add: row_expectations_def)

lemma row_expectations_filter:
  "row_expectations
     (filter (\<lambda>e. event_type e = ''flow_progress'' \<and> update_id (origin e) = Some uid) event_log_raw) uid
   = row_expectations event_log_raw uid"
  by (simp add: row_expectations_def)

lemma set_row_expectations:
  "r \<in> set (row_expectations event_log_raw uid) \<longleftrightarrow>
     (\<exists>e \<in> set event_log_raw. event_type e = ''flow_progress'' \<and> update_id (origin e) = Some uid
        \<and> (\<exists>arr. flow_progress_expectations (details e) = Some arr \<and> r \<in> set arr))"
  by (induction event_log_raw)
    (auto simp: row_expectations_Nil row_expectations_Cons explode_def split: option.splits)

lemma data_quality_metrics_cong:
  "row_expectations log1 uid1 = row_expectations log2 uid2 \<Longrightarrow>
     data_quality_metrics log1 uid1 = data_quality_metrics log2 uid2"
  by (simp add: data_quality_metrics_def)

lemma data_quality_metrics_keys:
  "map (\<lambda>m. (metrics_dataset m, metrics_expectation m)) (data_quality_metrics event_log_raw uid) =
     remdups (map (\<lambda>r. (dataset r, name r)) (row_expectations event_log_raw uid))"
  by (simp add: data_quality_metrics_def Let_def comp_def case_prod_beta)

lemma data_quality_metrics_row:
  assumes "m \<in> set (data_quality_metrics event_log_raw uid)"
  shows "passing_records m =
      sql_sum (map passed_records
        (filter (\<lambda>r. dataset r = metrics_dataset m \<and> name r = metrics_expectation m)
           (row_expectations event_log_raw uid)))"
    and "failing_records m =
      sql_sum (map failed_records
        (filter (\<lambda>r. dataset r = metrics_dataset m \<and> name r = metrics_expectation m)
           (row_expectations event_log_raw uid)))"
  using assms by (auto simp: data_quality_metrics_def Let_def)

lemma data_quality_metrics_quality_log:
  "data_quality_metrics quality_log ''u1'' =
     [\<lparr>metrics_dataset = Some ''orders'', metrics_expectation = Some ''valid_id'',
       passing_records = Some 15, failing_records = Some 3\<rparr>]"
  by (simp add: data_quality_metrics_def Let_def quality_log_def flow_progress_event_def
      valid_id_orders_def row_expectations_def explode_def sql_sum_def List.map_filter_simps)

lemma row_expectations_quality_log:
  "row_expectations quality_log ''u1'' = [valid_id_orders 10 2, valid_id_orders 5 1]"
  by (simp add: quality_log_def flow_progress_event_def row_expectations_def explode_def)

text \<open>
  Claim C5. The metrics query uses only the \<^verbatim>\<open>flow_progress\<close> records of the update; its
  inner rows are the elements of their parsed expectations arrays; the result has one row for
  each pair of dataset and expectation name among them; and the two counts of a row are the
  sums of \<^verbatim>\<open>passed_records\<close> and of \<^verbatim>\<open>failed_records\<close> over the elements of that pair (\<^verbatim>\<open>NULL\<close>
  counts skipped, and \<^verbatim>\<open>NULL\<close> where the pair has no count at all). Two records reporting
  \<open>valid_id\<close> on \<open>orders\<close> with (10, 2) and (5, 1) give the single row
  \<open>(orders, valid_id, 15, 3)\<close>.
\<close>

theorem C5_quality_aggregation:
  "data_quality_metrics event_log_raw uid =
     data_quality_metrics
       (filter (\<lambda>e. event_type e = ''flow_progress'' \<and> update_id (origin e) = Some uid)
          event_log_raw) uid
   \<and> (\<forall>r. r \<in> set (row_expectations event_log_raw uid) \<longleftrightarrow>
         (\<exists>e \<in> set event_log_raw. event_type e = ''flow_progress'' \<and> update_id (origin e) = Some uid
            \<and> (\<exists>arr. flow_progress_expectations (details e) = Some arr \<and> r \<in> set arr)))
   \<and> distinct (map (\<lambda>m. (metrics_dataset m, metrics_expectation m))
                 (data_quality_metrics event_log_raw uid))
   \<and> (\<lambda>m. (metrics_dataset m, metrics_expectation m)) ` set (data_quality_metrics event_log_raw uid) =
       (\<lambda>r. (dataset r, name r)) ` set (row_expectations event_log_raw uid)
   \<and> (\<forall>m \<in> set (data_quality_metrics event_log_raw uid).
        \<forall>group. group = filter (\<lambda>r. dataset r = metrics_dataset m \<and> name r = metrics_expectation m)
                           (row_expectations event_log_raw uid) \<longrightarrow>
          passing_records m =
            (if \<forall>r \<in> set group. passed_records r = None then None
             else Some (\<Sum>r\<leftarrow>group. case passed_records r of None \<Rightarrow> 0 | Some n \<Rightarrow> n))
          \<and> failing_records m =
            (if \<forall>r \<in> set group. failed_records r = None then None
             else Some (\<Sum>r\<leftarrow>group. case failed_records r of None \<Rightarrow> 0 | Some n \<Rightarrow> n)))
   \<and> data_quality_metrics quality_log ''u1'' =
       [\<lparr>metrics_dataset = Some ''orders'', metrics_expectation = Some ''valid_id'',
         passing_records = Some 15, failing_records = Some 3\<rparr>]"
proof (intro conjI allI ballI impI)
  show "data_quality_metrics event_log_raw uid =
     data_quality_metrics
       (filter (\<lambda>e. event_type e = ''flow_progress'' \<and> update_id (origin e) = Some uid)
          event_log_raw) uid"
    by (rule data_quality_metrics_cong) (simp add: row_expectations_filter)
  show "r \<in> set (row_expectations event_log_raw uid) \<longleftrightarrow>
         (\<exists>e \<in> set event_log_raw. event_type e = ''flow_progress'' \<and> update_id (origin e) = Some uid
            \<and> (\<exists>arr. flow_progress_expectations (details e) = Some arr \<and> r \<in> set arr))" for r
    by (rule set_row_expectations)
  show "distinct (map (\<lambda>m. (metrics_dataset m, metrics_expectation m))
                 (data_quality_metrics event_log_raw uid))"
    by (simp only: data_quality_metrics_keys distinct_remdups)
  have "set (map (\<lambda>m. (metrics_dataset m, metrics_expectation m))
               (data_quality_metrics event_log_raw uid)) =
        set (map (\<lambda>r. (dataset r, name r)) (row_expectations event_log_raw uid))"
    by (simp only: data_quality_metrics_keys set_remdups)
  then show "(\<lambda>m. (metrics_dataset m, metrics_expectation m)) ` set (data_quality_metrics event_log_raw uid) =
       (\<lambda>r. (dataset r, name r)) ` set (row_expectations event_log_raw uid)"
    by (simp only: set_map)
  show "data_quality_metrics quality_log ''u1'' =
       [\<lparr>metrics_dataset = Some ''orders'', metrics_expectation = Some ''valid_id'',
         passing_records = Some 15, failing_records = Some 3\<rparr>]"
    by (rule data_quality_metrics_quality_log)
next
  fix m group
  assume m: "m \<in> set (data_quality_metrics event_log_raw uid)"
    and group: "group = filter (\<lambda>r. dataset r = metrics_dataset m \<and> name r = metrics_expectation m)
                           (row_expectations event_log_raw uid)"
  show "passing_records m =
          (if \<forall>r \<in> set group. passed_records r = None then None
           else Some (\<Sum>r\<leftarrow>group. case passed_records r of None \<Rightarrow> 0 | Some n \<Rightarrow> n))"
    unfolding data_quality_metrics_row(1) [OF m] group [symmetric] sql_sum_eq
    by (simp add: comp_def)
  show "failing_records m =
          (if \<forall>r \<in> set group. failed_records r = None then None
           else Some (\<Sum>r\<leftarrow>group. case failed_records r of None \<Rightarrow> 0 | Some n \<Rightarrow> n))"
    unfolding data_quality_metrics_row(2) [OF m] group [symmetric] sql_sum_eq
    by (simp add: comp_def)
qed

text \<open>The row of the two records, its sums read off the group of its two elements.\<close>

theorem C5_quality_aggregation_witness:
  "(\<exists>m \<in> set (data_quality_metrics quality_log ''u1'').
      metrics_dataset m = Some ''orders'' \<and> metrics_expectation m = Some ''valid_id''
      \<and> passing_records m = Some (10 + 5) \<and> failing_records m = Some (2 + 1))"
proof -
  let ?m = "\<lparr>metrics_dataset = Some ''orders'', metrics_expectation = Some ''valid_id'',
             passing_records = Some 15, failing_records = Some 3\<rparr>"
  let ?group = "filter (\<lambda>r. dataset r = metrics_dataset ?m \<and> name r = metrics_expectation ?m)
                  (row_expectations quality_log ''u1'')"
  have m: "?m \<in> set (data_quality_metrics quality_log ''u1'')"
    by (simp add: data_quality_metrics_quality_log)
  note sums = conjunct1 [OF conjunct2 [OF conjunct2 [OF conjunct2 [OF conjunct2
    [OF C5_quality_aggregation [of quality_log "''u1''"]]]]]]
  from sums [THEN bspec, OF m, THEN spec, of ?group]
  have "passing_records ?m =
          (if \<forall>r \<in> set ?group. passed_records r = None then None
           else Some (\<Sum>r\<leftarrow>?group. case passed_records r of None \<Rightarrow> 0 | Some n \<Rightarrow> n))
      \<and> failing_records ?m =
          (if \<forall>r \<in> set ?group. failed_records r = None then None
           else Some (\<Sum>r\<leftarrow>?group. case failed_records r of None \<Rightarrow> 0 | Some n \<Rightarrow> n))"
    by simp
  then have "passing_records ?m = Some (10 + 5) \<and> failing_records ?m = Some (2 + 1)"
    by (simp add: row_expectations_quality_log valid_id_orders_def)
  with m show ?thesis by (intro bexI [of _ ?m]) simp_all
qed

lemma row_expectations_unfolded:
  "row_expectations event_log_raw uid =
     concat (map (\<lambda>r. case flow_progress_expectations (details r) of None \<Rightarrow> [] | Some arr \<Rightarrow> arr)
       (filter (\<lambda>r. event_type r = ''flow_progress'' \<and> update_id (origin r) = Some uid)
          event_log_raw))"
  by (simp add: row_expectations_def explode_def)

lemma row_expectations_skip:
  assumes "flow_progress_expectations (details e) = None"
  shows "row_expectations (before @ e # after) uid = row_expectations (before @ after) uid"
proof -
  from assms have none: "row_expectations [e] uid = []"
    by (simp add: row_expectations_def explode_def)
  have "row_expectations (before @ e # after) uid =
      row_expectations before uid @ row_expectations [e] uid @ row_expectations after uid"
    using row_expectations_append [of before "[e] @ after" uid]
      row_expectations_append [of "[e]" after uid] by simp
  then show ?thesis by (simp add: none row_expectations_append)
qed

lemma data_quality_metrics_partly_parsed_log:
  "data_quality_metrics partly_parsed_log ''u1'' =
     [\<lparr>metrics_dataset = Some ''orders'', metrics_expectation = Some ''valid_id'',
       passing_records = Some 10, failing_records = Some 3\<rparr>]"
  by (simp add: data_quality_metrics_def Let_def partly_parsed_log_def flow_progress_event_def
      valid_id_orders_def valid_id_orders_failed_only_def row_expectations_def explode_def
      sql_sum_def List.map_filter_simps)

text \<open>
  Claim C6 says that a record whose payload fails to parse is skipped and contributes no
  row. A payload that parses in part is not skipped. The second record of this log leaves
  \<^verbatim>\<open>passed_records\<close> out of its one expectation: \<^verbatim>\<open>from_json\<close> gives the element with \<^verbatim>\<open>NULL\<close>
  there, the record contributes that row, and its failed count is summed into the group: the
  first record alone gives \<open>(orders, valid_id, 10, 2)\<close>, the two give \<open>(orders, valid_id, 10, 3)\<close>.
\<close>

theorem C6_partly_parsed_record_counted_counterexample:
  "row_expectations [flow_progress_event ''u1'' (Some [valid_id_orders_failed_only 1])] ''u1'' =
     [valid_id_orders_failed_only 1]
   \<and> data_quality_metrics [flow_progress_event ''u1'' (Some [valid_id_orders 10 2])] ''u1'' =
       [\<lparr>metrics_dataset = Some ''orders'', metrics_expectation = Some ''valid_id'',
         passing_records = Some 10, failing_records = Some 2\<rparr>]
   \<and> data_quality_metrics
         [flow_progress_event ''u1'' (Some [valid_id_orders 10 2]),
          flow_progress_event ''u1'' (Some [valid_id_orders_failed_only 1])] ''u1'' =
       [\<lparr>metrics_dataset = Some ''orders'', metrics_expectation = Some ''valid_id'',
         passing_records = Some 10, failing_records = Some 3\<rparr>]"
proof (intro conjI)
  show "row_expectations [flow_progress_event ''u1'' (Some [valid_id_orders_failed_only 1])] ''u1'' =
     [valid_id_orders_failed_only 1]"
    by (simp add: row_expectations_def explode_def flow_progress_event_def)
  show "data_quality_metrics [flow_progress_event ''u1'' (Some [valid_id_orders 10 2])] ''u1'' =
       [\<lparr>metrics_dataset = Some ''orders'', metrics_expectation = Some ''valid_id'',
         passing_records = Some 10, failing_records = Some 2\<rparr>]"
    by (simp add: data_quality_metrics_def Let_def flow_progress_event_def valid_id_orders_def
        row_expectations_def explode_def sql_sum_def List.map_filter_simps)
  show "data_quality_metrics
         [flow_progress_event ''u1'' (Some [valid_id_orders 10 2]),
          flow_progress_event ''u1'' (Some [valid_id_orders_failed_only 1])] ''u1'' =
       [\<lparr>metrics_dataset = Some ''orders'', metrics_expectation = Some ''valid_id'',
         passing_records = Some 10, failing_records = Some 3\<rparr>]"
    using data_quality_metrics_partly_parsed_log by (simp add: partly_parsed_log_def)
qed

text \<open>
  Claim C6, as the code has it. A record for which \<^verbatim>\<open>from_json\<close> gives \<^verbatim>\<open>NULL\<close>, its
  expectations missing or not parsing at all, contributes no row, and the result is the
  aggregation of the other records: with \<open>rows\<close> the elements of the parsed arrays of the
  \<^verbatim>\<open>flow_progress\<close> records of the update before and after it, in their order, the inner rows
  of the query are \<open>rows\<close>, the result is that of the log without the record, it has one row
  for each pair of dataset and name in \<open>rows\<close>, and the counts of a row are the sums over the
  elements of \<open>rows\<close> of its pair. The query is a total function: no record makes it fail.
\<close>

theorem C6_malformed_record_skipped:
  assumes "flow_progress_expectations (details e) = None"
  shows "\<forall>rows.
      rows = concat (map (\<lambda>r. case flow_progress_expectations (details r) of
                                 None \<Rightarrow> [] | Some arr \<Rightarrow> arr)
               (filter (\<lambda>r. event_type r = ''flow_progress'' \<and> update_id (origin r) = Some uid)
                  (before @ after))) \<longrightarrow>
      row_expectations (before @ e # after) uid = rows
      \<and> data_quality_metrics (before @ e # after) uid = data_quality_metrics (before @ after) uid
      \<and> distinct (map (\<lambda>m. (metrics_dataset m, metrics_expectation m))
                    (data_quality_metrics (before @ e # after) uid))
      \<and> (\<lambda>m. (metrics_dataset m, metrics_expectation m))
            ` set (data_quality_metrics (before @ e # after) uid) =
          (\<lambda>r. (dataset r, name r)) ` set rows
      \<and> (\<forall>m \<in> set (data_quality_metrics (before @ e # after) uid).
           \<forall>group. group = filter (\<lambda>r. dataset r = metrics_dataset m
                                        \<and> name r = metrics_expectation m) rows \<longrightarrow>
             passing_records m =
               (if \<forall>r \<in> set group. passed_records r = None then None
                else Some (\<Sum>r\<leftarrow>group. case passed_records r of None \<Rightarrow> 0 | Some n \<Rightarrow> n))
             \<and> failing_records m =
               (if \<forall>r \<in> set group. failed_records r = None then None
                else Some (\<Sum>r\<leftarrow>group. case failed_records r of None \<Rightarrow> 0 | Some n \<Rightarrow> n)))"
proof (intro allI impI)
  fix rows
  assume "rows = concat (map (\<lambda>r. case flow_progress_expectations (details r) of
                                 None \<Rightarrow> [] | Some arr \<Rightarrow> arr)
               (filter (\<lambda>r. event_type r = ''flow_progress'' \<and> update_id (origin r) = Some uid)
                  (before @ after)))"
  then have "rows = row_expectations (before @ after) uid"
    by (simp only: row_expectations_unfolded)
  with row_expectations_skip [OF assms, of before after uid]
  have rows: "row_expectations (before @ e # after) uid = rows" by simp
  let ?log = "before @ e # after"
  have same: "data_quality_metrics ?log uid = data_quality_metrics (before @ after) uid"
    by (rule data_quality_metrics_cong) (rule row_expectations_skip [OF assms])
  have dist: "distinct (map (\<lambda>m. (metrics_dataset m, metrics_expectation m))
                    (data_quality_metrics ?log uid))"
    by (simp only: data_quality_metrics_keys distinct_remdups)
  have "set (map (\<lambda>m. (metrics_dataset m, metrics_expectation m))
               (data_quality_metrics ?log uid)) =
        set (map (\<lambda>r. (dataset r, name r)) (row_expectations ?log uid))"
    by (simp only: data_quality_metrics_keys set_remdups)
  then have keys: "(\<lambda>m. (metrics_dataset m, metrics_expectation m))
            ` set (data_quality_metrics ?log uid) = (\<lambda>r. (dataset r, name r)) ` set rows"
    by (simp only: set_map rows)
  have sums: "passing_records m =
               (if \<forall>r \<in> set group. passed_records r = None then None
                else Some (\<Sum>r\<leftarrow>group. case passed_records r of None \<Rightarrow> 0 | Some n \<Rightarrow> n))
             \<and> failing_records m =
               (if \<forall>r \<in> set group. failed_records r = None then None
                else Some (\<Sum>r\<leftarrow>group. case failed_records r of None \<Rightarrow> 0 | Some n \<Rightarrow> n))"
    if m: "m \<in> set (data_quality_metrics ?log uid)"
      and group: "group = filter (\<lambda>r. dataset r = metrics_dataset m
                                        \<and> name r = metrics_expectation m) rows"
    for m group
  proof
    show "passing_records m =
               (if \<forall>r \<in> set group. passed_records r = None then None
                else Some (\<Sum>r\<leftarrow>group. case passed_records r of None \<Rightarrow> 0 | Some n \<Rightarrow> n))"
      unfolding data_quality_metrics_row(1) [OF m] rows group [symmetric] sql_sum_eq
      by (simp add: comp_def)
    show "failing_records m =
               (if \<forall>r \<in> set group. failed_records r = None then None
                else Some (\<Sum>r\<leftarrow>group. case failed_records r of None \<Rightarrow> 0 | Some n \<Rightarrow> n))"
      unfolding data_quality_metrics_row(2) [OF m] rows group [symmetric] sql_sum_eq
      by (simp add: comp_def)
  qed
  from rows same dist keys sums
  show "row_expectations ?log uid = rows
      \<and> data_quality_metrics ?log uid = data_quality_metrics (before @ after) uid
      \<and> distinct (map (\<lambda>m. (metrics_dataset m, metrics_expectation m))
                    (data_quality_metrics ?log uid))
      \<and> (\<lambda>m. (metrics_dataset m, metrics_expectation m))
            ` set (data_quality_metrics ?log uid) =
          (\<lambda>r. (dataset r, name r)) ` set rows
      \<and> (\<forall>m \<in> set (data_quality_metrics ?log uid).
           \<forall>group. group = filter (\<lambda>r. dataset r = metrics_dataset m
                                        \<and> name r = metrics_expectation m) rows \<longrightarrow>
             passing_records m =
               (if \<forall>r \<in> set group. passed_records r = None then None
                else Some (\<Sum>r\<leftarrow>group. case passed_records r of None \<Rightarrow> 0 | Some n \<Rightarrow> n))
             \<and> failing_records m =
               (if \<forall>r \<in> set group. failed_records r = None then None
                else Some (\<Sum>r\<leftarrow>group. case failed_records r of None \<Rightarrow> 0 | Some n \<Rightarrow> n)))"
    by (intro conjI ballI allI impI) simp_all
qed

text \<open>
  A record with \<^verbatim>\<open>NULL\<close> expectations between the two records of the example log: the inner
  rows are the two elements of the other records and the result is their single row.
\<close>

theorem C6_malformed_record_skipped_witness:
  "flow_progress_expectations (details (flow_progress_event ''u1'' None)) = None
   \<and> row_expectations
       [flow_progress_event ''u1'' (Some [valid_id_orders 10 2]),
        flow_progress_event ''u1'' None,
        flow_progress_event ''u1'' (Some [valid_id_orders 5 1])] ''u1'' =
     [valid_id_orders 10 2, valid_id_orders 5 1]
   \<and> data_quality_metrics
       [flow_progress_event ''u1'' (Some [valid_id_orders 10 2]),
        flow_progress_event ''u1'' None,
        flow_progress_event ''u1'' (Some [valid_id_orders 5 1])] ''u1'' =
     [\<lparr>metrics_dataset = Some ''orders'', metrics_expectation = Some ''valid_id'',
       passing_records = Some 15, failing_records = Some 3\<rparr>]"
proof -
  let ?g1 = "flow_progress_event ''u1'' (Some [valid_id_orders 10 2])"
  let ?g2 = "flow_progress_event ''u1'' (Some [valid_id_orders 5 1])"
  let ?bad = "flow_progress_event ''u1'' None"
  have bad: "flow_progress_expectations (details ?bad) = None"
    by (simp add: flow_progress_event_def)
  note C6 = C6_malformed_record_skipped [OF bad, of "''u1''" "[?g1]" "[?g2]", rule_format, OF refl]
  from conjunct1 [OF C6]
  have rows: "row_expectations [?g1, ?bad, ?g2] ''u1'' = [valid_id_orders 10 2, valid_id_orders 5 1]"
    by (simp add: flow_progress_event_def)
  from conjunct1 [OF conjunct2 [OF C6]]
  have "data_quality_metrics [?g1, ?bad, ?g2] ''u1'' = data_quality_metrics quality_log ''u1''"
    by (simp add: quality_log_def)
  with bad rows show ?thesis by (simp add: data_quality_metrics_quality_log)
qed

section \<open>The cells and the state they share\<close>

lemma latest_two_updates: "latest_update_id two_updates_log = Inr (Some ''u2'')"
  by (simp add: latest_update_id_def two_updates_log_def create_update_event_def
      flow_definition_event_def first_def)

lemma l1_two_updates_u1:
  "l1 two_updates_log ''u1'' =
     [\<lparr>output_dataset = Some ''B'', input_depth = 1, input_dataset = ''A''\<rparr>]"
  by (simp add: two_updates_log_def flow_definition_event_def create_update_event_def
      l1_Nil l1_Cons explode_def)

lemma l1_two_updates_u2:
  "l1 two_updates_log ''u2'' =
     [\<lparr>output_dataset = Some ''B'', input_depth = 1, input_dataset = ''C''\<rparr>]"
  by (simp add: two_updates_log_def flow_definition_event_def create_update_event_def
      l1_Nil l1_Cons explode_def)

lemma lineage_two_updates_u1:
  "lineage two_updates_log ''u1'' =
     [\<lparr>pivot_output_dataset = Some ''B'', L1 = [''A''], L2 = [], L3 = []\<rparr>]"
  by (simp add: lineage_def pivot_def pivot_cell_def collect_set_def union_all_def
      l2_def l3_def l1_two_updates_u1 join_level_Nil join_level_Cons)

lemma lineage_two_updates_u2:
  "lineage two_updates_log ''u2'' =
     [\<lparr>pivot_output_dataset = Some ''B'', L1 = [''C''], L2 = [], L3 = []\<rparr>]"
  by (simp add: lineage_def pivot_def pivot_cell_def collect_set_def union_all_def
      l2_def l3_def l1_two_updates_u2 join_level_Nil join_level_Cons)

lemma plain_text_u1: "plain_text ''u1''"
  by (simp add: plain_text_def)

lemma plain_text_u2: "plain_text ''u2''"
  by (simp add: plain_text_def)

lemma lineage_two_updates_unset: "lineage two_updates_log [] = []"
  by (simp add: lineage_def pivot_def union_all_def l2_def l3_def l1_Nil l1_Cons
      join_level_Nil two_updates_log_def flow_definition_event_def create_update_event_def)

text \<open>
  Claim C9 says that no operation mutates shared state and that running one query leaves the
  result of every other unchanged. The cell of the latest update writes the session
  configuration, and the lineage cell reads it: on a log with the updates \<open>u1\<close> and \<open>u2\<close>, in a
  session where \<^verbatim>\<open>latest_update.id\<close> is \<open>u1\<close>, running the cell of the latest update sets it to
  \<open>u2\<close>, and the lineage cell on the same log gives the inputs of \<open>u1\<close> before and those of \<open>u2\<close>
  after. In a session where the entry is not set the lineage cell gives no row at all.
\<close>

theorem C9_cells_share_state_counterexample:
  "cell_latest_update_id two_updates_log (Some ''u1'') = Inr (Some ''u2'')
   \<and> cell_lineage two_updates_log (Some ''u1'') =
       Rows ([\<lparr>pivot_output_dataset = Some ''B'', L1 = [''A''], L2 = [], L3 = []\<rparr>], Some ''u1'')
   \<and> cell_lineage two_updates_log (Some ''u2'') =
       Rows ([\<lparr>pivot_output_dataset = Some ''B'', L1 = [''C''], L2 = [], L3 = []\<rparr>], Some ''u2'')
   \<and> lineage two_updates_log ''u1'' \<noteq> lineage two_updates_log ''u2''
   \<and> cell_lineage two_updates_log None = Rows ([], None)"
proof (intro conjI)
  show "cell_latest_update_id two_updates_log (Some ''u1'') = Inr (Some ''u2'')"
    by (simp add: cell_latest_update_id_def latest_two_updates)
  show "cell_lineage two_updates_log (Some ''u1'') =
       Rows ([\<lparr>pivot_output_dataset = Some ''B'', L1 = [''A''], L2 = [], L3 = []\<rparr>], Some ''u1'')"
    by (simp add: cell_lineage_def substituted_def plain_text_u1 lineage_two_updates_u1)
  show "cell_lineage two_updates_log (Some ''u2'') =
       Rows ([\<lparr>pivot_output_dataset = Some ''B'', L1 = [''C''], L2 = [], L3 = []\<rparr>], Some ''u2'')"
    by (simp add: cell_lineage_def substituted_def plain_text_u2 lineage_two_updates_u2)
  show "lineage two_updates_log ''u1'' \<noteq> lineage two_updates_log ''u2''"
    by (simp add: lineage_two_updates_u1 lineage_two_updates_u2)
  show "cell_lineage two_updates_log None = Rows ([], None)"
    by (simp add: cell_lineage_def substituted_def plain_text_def lineage_two_updates_unset)
qed

text \<open>
  Claim C9, as the code has it. The lineage cell and the metrics cell leave the configuration
  entry as it is, and what they return is the query of the log for the text of the entry;
  they return it whenever that text is made of letters, digits, hyphens and underscores.
  The cell of the latest update gives the same outcome whatever the entry was before. Where
  it succeeds it has stored the \<^verbatim>\<open>update_id\<close> of a \<^verbatim>\<open>create_update\<close> record of the log with the
  greatest timestamp; run again on the same log it changes nothing more; and the SQL cells
  that run after it return the lineage and the metrics of that update.
\<close>

theorem C9_cells_pure_in_log_and_configuration:
  "(\<forall>res conf1. cell_lineage event_log_raw conf = Rows (res, conf1) \<longrightarrow>
       conf1 = conf \<and> res = lineage event_log_raw (substituted conf))
   \<and> (\<forall>res conf1. cell_data_quality_metrics event_log_raw conf = Rows (res, conf1) \<longrightarrow>
       conf1 = conf \<and> res = data_quality_metrics event_log_raw (substituted conf))
   \<and> (plain_text (substituted conf) \<longrightarrow>
        cell_lineage event_log_raw conf = Rows (lineage event_log_raw (substituted conf), conf)
        \<and> cell_data_quality_metrics event_log_raw conf =
            Rows (data_quality_metrics event_log_raw (substituted conf), conf))
   \<and> cell_latest_update_id event_log_raw conf = cell_latest_update_id event_log_raw conf'
   \<and> (\<forall>conf1. cell_latest_update_id event_log_raw conf = Inr conf1 \<longrightarrow>
        (\<exists>latest. conf1 = Some latest
           \<and> (\<exists>e \<in> set event_log_raw. event_type e = ''create_update''
                 \<and> (\<forall>e' \<in> set event_log_raw. event_type e' = ''create_update'' \<longrightarrow>
                       timestamp e' \<le> timestamp e)
                 \<and> update_id (origin e) = Some latest)
           \<and> cell_latest_update_id event_log_raw conf1 = Inr conf1
           \<and> (plain_text latest \<longrightarrow>
                cell_lineage event_log_raw conf1 = Rows (lineage event_log_raw latest, conf1)
                \<and> cell_data_quality_metrics event_log_raw conf1 =
                    Rows (data_quality_metrics event_log_raw latest, conf1))))"
proof (intro conjI allI impI)
  show "conf1 = conf" if "cell_lineage event_log_raw conf = Rows (res, conf1)" for res conf1
    using that by (auto simp: cell_lineage_def split: if_splits)
  show "res = lineage event_log_raw (substituted conf)"
    if "cell_lineage event_log_raw conf = Rows (res, conf1)" for res conf1
    using that by (auto simp: cell_lineage_def split: if_splits)
  show "conf1 = conf"
    if "cell_data_quality_metrics event_log_raw conf = Rows (res, conf1)" for res conf1
    using that by (auto simp: cell_data_quality_metrics_def split: if_splits)
  show "res = data_quality_metrics event_log_raw (substituted conf)"
    if "cell_data_quality_metrics event_log_raw conf = Rows (res, conf1)" for res conf1
    using that by (auto simp: cell_data_quality_metrics_def split: if_splits)
  show "cell_lineage event_log_raw conf = Rows (lineage event_log_raw (substituted conf), conf)"
    if "plain_text (substituted conf)"
    using that by (simp add: cell_lineage_def)
  show "cell_data_quality_metrics event_log_raw conf =
            Rows (data_quality_metrics event_log_raw (substituted conf), conf)"
    if "plain_text (substituted conf)"
    using that by (simp add: cell_data_quality_metrics_def)
  show "cell_latest_update_id event_log_raw conf = cell_latest_update_id event_log_raw conf'"
    by (simp add: cell_latest_update_id_def)
next
  fix conf1
  assume run: "cell_latest_update_id event_log_raw conf = Inr conf1"
  then obtain latest where latest: "latest_update_id event_log_raw = Inr (Some latest)"
    and conf1: "conf1 = Some latest"
    by (auto simp: cell_latest_update_id_def split: sum.splits option.splits)
  have some: "\<exists>e \<in> set event_log_raw. event_type e = ''create_update''"
  proof (rule ccontr)
    assume "\<not> (\<exists>e \<in> set event_log_raw. event_type e = ''create_update'')"
    then have "\<forall>e \<in> set event_log_raw. event_type e \<noteq> ''create_update''" by blast
    from latest_update_id_none [OF this] latest show False by simp
  qed
  from latest_update_id_some [OF some] latest
  have max: "\<exists>e \<in> set event_log_raw. event_type e = ''create_update''
                 \<and> (\<forall>e' \<in> set event_log_raw. event_type e' = ''create_update'' \<longrightarrow>
                       timestamp e' \<le> timestamp e)
                 \<and> update_id (origin e) = Some latest"
    by auto
  have again: "cell_latest_update_id event_log_raw conf1 = Inr conf1"
    by (simp add: cell_latest_update_id_def latest conf1)
  have after: "cell_lineage event_log_raw conf1 = Rows (lineage event_log_raw latest, conf1)
                \<and> cell_data_quality_metrics event_log_raw conf1 =
                    Rows (data_quality_metrics event_log_raw latest, conf1)"
    if "plain_text latest"
    using that by (simp add: cell_lineage_def cell_data_quality_metrics_def substituted_def conf1)
  from conf1 max again after
  show "\<exists>latest. conf1 = Some latest
           \<and> (\<exists>e \<in> set event_log_raw. event_type e = ''create_update''
                 \<and> (\<forall>e' \<in> set event_log_raw. event_type e' = ''create_update'' \<longrightarrow>
                       timestamp e' \<le> timestamp e)
                 \<and> update_id (origin e) = Some latest)
           \<and> cell_latest_update_id event_log_raw conf1 = Inr conf1
           \<and> (plain_text latest \<longrightarrow>
                cell_lineage event_log_raw conf1 = Rows (lineage event_log_raw latest, conf1)
                \<and> cell_data_quality_metrics event_log_raw conf1 =
                    Rows (data_quality_metrics event_log_raw latest, conf1))"
    by (intro exI [of _ latest] conjI impI) simp_all
qed

text \<open>
  The log with two updates, in a session where the entry is not set: the cell stores \<open>u2\<close>, a
  second run keeps it, and the lineage cell after it returns the lineage of \<open>u2\<close> and leaves
  the entry alone.
\<close>

theorem C9_cells_pure_in_log_and_configuration_witness:
  "cell_latest_update_id two_updates_log None = Inr (Some ''u2'')
   \<and> cell_latest_update_id two_updates_log (Some ''u2'') = Inr (Some ''u2'')
   \<and> plain_text ''u2''
   \<and> cell_lineage two_updates_log (Some ''u2'') =
       Rows ([\<lparr>pivot_output_dataset = Some ''B'', L1 = [''C''], L2 = [], L3 = []\<rparr>], Some ''u2'')"
proof -
  have run: "cell_latest_update_id two_updates_log None = Inr (Some ''u2'')"
    by (simp add: cell_latest_update_id_def latest_two_updates)
  note C9 = C9_cells_pure_in_log_and_configuration [of two_updates_log None]
  from conjunct2 [OF conjunct2 [OF conjunct2 [OF conjunct2 [OF C9]]], rule_format, OF run]
  obtain latest where latest: "Some ''u2'' = Some latest"
    and again: "cell_latest_update_id two_updates_log (Some ''u2'') = Inr (Some ''u2'')"
    and after: "plain_text latest \<longrightarrow>
        cell_lineage two_updates_log (Some ''u2'') = Rows (lineage two_updates_log latest, Some ''u2'')"
    by blast
  from latest have "latest = ''u2''" by simp
  with after plain_text_u2
  have "cell_lineage two_updates_log (Some ''u2'') =
      Rows (lineage two_updates_log ''u2'', Some ''u2'')"
    by simp
  with run again plain_text_u2 show ?thesis by (simp add: lineage_two_updates_u2)
qed

end
